theory Spec2Isabelle
  imports Complex_Main
begin

section \<open>Vectors and matrices\<close>

text \<open>
  The module \<^verbatim>\<open>skrobot/coordinates/base.py\<close> stores a pose as a numpy array of shape
  (3,) and one of shape (3, 3). The arrays are never written in place by the module, so
  they are values here: a vector is a triple, a matrix is the triple of its rows. The
  entries are real numbers: the arithmetic of the model is exact, rounding is not
  modelled.
\<close>

type_synonym vec3 = "real \<times> real \<times> real"
type_synonym mat3 = "vec3 \<times> vec3 \<times> vec3"

fun vadd :: "vec3 \<Rightarrow> vec3 \<Rightarrow> vec3" where
  "vadd (a, b, c) (x, y, z) = (a + x, b + y, c + z)"

fun vscale :: "real \<Rightarrow> vec3 \<Rightarrow> vec3" where
  "vscale k (x, y, z) = (k * x, k * y, k * z)"


fun dot3 :: "vec3 \<Rightarrow> vec3 \<Rightarrow> real" where
  "dot3 (a, b, c) (x, y, z) = a * x + b * y + c * z"

text \<open>\<^verbatim>\<open>np.dot(R, v)\<close> and \<^verbatim>\<open>np.matmul(R, v)\<close> for a (3, 3) and a (3,) array.\<close>

fun matvec :: "mat3 \<Rightarrow> vec3 \<Rightarrow> vec3" where
  "matvec (r1, r2, r3) v = (dot3 r1 v, dot3 r2 v, dot3 r3 v)"

text \<open>\<^verbatim>\<open>M.T\<close>\<close>

fun mat_T :: "mat3 \<Rightarrow> mat3" where
  "mat_T ((a, b, c), (d, e, f), (g, h, i)) = ((a, d, g), (b, e, h), (c, f, i))"

text \<open>\<^verbatim>\<open>np.matmul(A, B)\<close>, \<^verbatim>\<open>np.dot(A, B)\<close> and \<^verbatim>\<open>A.dot(B)\<close> for two (3, 3) arrays.\<close>

fun matmul :: "mat3 \<Rightarrow> mat3 \<Rightarrow> mat3" where
  "matmul (r1, r2, r3) B =
     (case mat_T B of (c1, c2, c3) \<Rightarrow>
        ((dot3 r1 c1, dot3 r1 c2, dot3 r1 c3),
         (dot3 r2 c1, dot3 r2 c2, dot3 r2 c3),
         (dot3 r3 c1, dot3 r3 c2, dot3 r3 c3)))"

text \<open>\<^verbatim>\<open>np.eye(3)\<close> and \<^verbatim>\<open>np.array([0, 0, 0])\<close>\<close>

definition eye3 :: mat3 where
  "eye3 = ((1, 0, 0), (0, 1, 0), (0, 0, 1))"

definition zeros3 :: vec3 where
  "zeros3 = (0, 0, 0)"

text \<open>
  Exact orthonormality, \<open>R \<cdot> R\<^sup>T = R\<^sup>T \<cdot> R = I\<close>. It serves as the validity check of the
  instance of the collaborators that the examples run with; the check of the program,
  \<^verbatim>\<open>_check_valid_rotation\<close>, accepts a matrix that is orthonormal up to a tolerance.
\<close>

definition orthonormal :: "mat3 \<Rightarrow> bool" where
  "orthonormal R = (matmul R (mat_T R) = eye3 \<and> matmul (mat_T R) R = eye3)"

section \<open>The class Transform\<close>

record Transform =
  tf_translation :: vec3
  tf_rotation :: mat3

text \<open>\<^verbatim>\<open>Transform.inverse_transformation\<close>\<close>

definition Transform_inverse_transformation :: "Transform \<Rightarrow> Transform" where
  "Transform_inverse_transformation self =
     (let new_rot = mat_T (tf_rotation self);
          new_trans = vscale (- 1) (matvec new_rot (tf_translation self))
      in \<lparr>tf_translation = new_trans, tf_rotation = new_rot\<rparr>)"

text \<open>\<^verbatim>\<open>Transform.__mul__\<close>: \<open>self\<close> is \<open>tf_12\<close>.\<close>

definition Transform_mul :: "Transform \<Rightarrow> Transform \<Rightarrow> Transform" where
  "Transform_mul tf_12 tf_23 =
     (let tran_12 = tf_translation tf_12; rot_12 = tf_rotation tf_12;
          tran_23 = tf_translation tf_23; rot_23 = tf_rotation tf_23;
          rot_13 = matmul rot_23 rot_12;
          tran_13 = vadd tran_23 (matvec rot_23 tran_12)
      in \<lparr>tf_translation = tran_13, tf_rotation = rot_13\<rparr>)"

section \<open>Objects\<close>

text \<open>
  The objects of the module live in a store. An address holds an instance of
  \<^verbatim>\<open>Coordinates\<close> or of its subclass \<^verbatim>\<open>CascadedCoords\<close> (the field \<open>cascaded\<close> tells
  which). The attribute \<^verbatim>\<open>_changed\<close> is \<open>changed_flag\<close>, and the private
  \<^verbatim>\<open>_worldcoords\<close> object of a \<^verbatim>\<open>CascadedCoords\<close> is kept in the two fields
  \<open>world_rotation\<close> and \<open>world_translation\<close> of its owner. Frames of the store carry no
  user hook; the hook of a \<^verbatim>\<open>_worldcoords\<close> object is the \<^verbatim>\<open>update\<close> of its owner.
\<close>

type_synonym addr = nat

record Coordinates =
  rotation :: mat3
  translation :: vec3
  name :: string
  parent :: "addr option"
  cascaded :: bool
  changed_flag :: bool
  descendants :: "addr list"
  world_rotation :: mat3
  world_translation :: vec3

type_synonym heap = "addr \<Rightarrow> Coordinates"

text \<open>
  A reference to a coordinates object: a frame of the store, the \<^verbatim>\<open>_worldcoords\<close>
  object owned by a frame of the store, or a fresh object that nothing else refers to
  (the result of \<^verbatim>\<open>Coordinates(...)\<close> inside an operation), kept as a value.
\<close>

datatype cref = At addr | Cache addr | Tmp Coordinates

text \<open>\<^verbatim>\<open>Coordinates(pos=pos, rot=rot, check_validity=False)\<close> with the default name.\<close>

definition new_Coordinates :: "vec3 \<Rightarrow> mat3 \<Rightarrow> Coordinates" where
  "new_Coordinates pos rot =
     \<lparr>rotation = rot, translation = pos, name = '''', parent = None, cascaded = False,
      changed_flag = False, descendants = [], world_rotation = eye3,
      world_translation = zeros3\<rparr>"

text \<open>The attributes \<^verbatim>\<open>_rotation\<close> and \<^verbatim>\<open>_translation\<close> of the object a reference names.\<close>

fun get_rotation :: "heap \<Rightarrow> cref \<Rightarrow> mat3" where
  "get_rotation h (At a) = rotation (h a)"
| "get_rotation h (Cache a) = world_rotation (h a)"
| "get_rotation h (Tmp c) = rotation c"

fun get_translation :: "heap \<Rightarrow> cref \<Rightarrow> vec3" where
  "get_translation h (At a) = translation (h a)"
| "get_translation h (Cache a) = world_translation (h a)"
| "get_translation h (Tmp c) = translation c"

text \<open>
  The assignments \<^verbatim>\<open>out._translation = t\<close> and \<^verbatim>\<open>out._rotation = R\<close>. A fresh object is a
  value, so the store is returned together with the reference to the written object.
\<close>

fun set_translation :: "heap \<Rightarrow> cref \<Rightarrow> vec3 \<Rightarrow> heap \<times> cref" where
  "set_translation h (At a) t = (h(a := (h a)\<lparr>translation := t\<rparr>), At a)"
| "set_translation h (Cache a) t = (h(a := (h a)\<lparr>world_translation := t\<rparr>), Cache a)"
| "set_translation h (Tmp c) t = (h, Tmp (c\<lparr>translation := t\<rparr>))"

fun set_rotation :: "heap \<Rightarrow> cref \<Rightarrow> mat3 \<Rightarrow> heap \<times> cref" where
  "set_rotation h (At a) R = (h(a := (h a)\<lparr>rotation := R\<rparr>), At a)"
| "set_rotation h (Cache a) R = (h(a := (h a)\<lparr>world_rotation := R\<rparr>), Cache a)"
| "set_rotation h (Tmp c) R = (h, Tmp (c\<lparr>rotation := R\<rparr>))"

text \<open>
  Object identity (\<^verbatim>\<open>==\<close> on coordinates objects, which define no \<^verbatim>\<open>__eq__\<close>): a fresh
  object is none of the objects an argument can name.
\<close>

fun same_object :: "cref \<Rightarrow> cref \<Rightarrow> bool" where
  "same_object (At a) (At b) = (a = b)"
| "same_object (Cache a) (Cache b) = (a = b)"
| "same_object _ _ = False"

section \<open>Arguments and collaborators\<close>

text \<open>
  The functions that the module imports from \<^verbatim>\<open>skrobot.coordinates.math\<close> are not part of
  the source at hand. The ones below are parameters of the model, gathered in a record:
  \<open>check_valid_rotation M R\<close> holds when \<^verbatim>\<open>_check_valid_rotation(R)\<close> returns without
  raising, and \<open>rotation_matrix M theta axis skip_normalization\<close> is the axis-angle matrix.
\<close>

type_synonym quat = "real \<times> real \<times> real \<times> real"

datatype axis_arg = AxisToken string | AxisArray vec3 | AxisNone

record math =
  check_valid_rotation :: "mat3 \<Rightarrow> bool"
  quaternion2matrix :: "quat \<Rightarrow> mat3"
  matrix2quaternion :: "mat3 \<Rightarrow> quat"
  rpy2quaternion :: "vec3 \<Rightarrow> quat"
  rotation_matrix :: "real \<Rightarrow> axis_arg \<Rightarrow> bool \<Rightarrow> mat3"

text \<open>
  Modelled from the spec: \<^verbatim>\<open>rotate_matrix(matrix, theta, axis, world, skip_normalization)\<close>
  of \<^verbatim>\<open>skrobot.coordinates.math\<close> is missing from the source. The spec gives the rule of
  \<^verbatim>\<open>rotate\<close>: \<open>rotation \<cdot> \<Delta>\<close> for \<^verbatim>\<open>wrt = local\<close>, where \<^verbatim>\<open>Coordinates.rotate\<close> calls
  \<^verbatim>\<open>rotate_matrix\<close> without the argument \<^verbatim>\<open>world\<close>, and \<open>\<Delta> \<cdot> rotation\<close> for \<^verbatim>\<open>parent\<close>
  and \<^verbatim>\<open>world\<close>, where it passes \<^verbatim>\<open>True\<close>.
\<close>

definition rotate_matrix :: "math \<Rightarrow> mat3 \<Rightarrow> real \<Rightarrow> axis_arg \<Rightarrow> bool \<Rightarrow> bool \<Rightarrow> mat3" where
  "rotate_matrix M matrix theta axis world skip_normalization =
     (if world then matmul (rotation_matrix M theta axis skip_normalization) matrix
      else matmul matrix (rotation_matrix M theta axis skip_normalization))"

text \<open>
  \<^verbatim>\<open>np.linalg.norm\<close> and the arithmetic of numpy on arrays of shape (4,).
\<close>

fun norm4 :: "quat \<Rightarrow> real" where
  "norm4 (w, x, y, z) = sqrt (w * w + x * x + y * y + z * z)"





text \<open>
  The argument \<^verbatim>\<open>wrt\<close>: a string, a coordinates object, \<^verbatim>\<open>None\<close>, or a value of another
  type.
\<close>

datatype wrt_arg = WStr string | WCoords cref | WNone | WOther

text \<open>\<^verbatim>\<open>wrt == self\<close> and \<^verbatim>\<open>wrt == self.parent\<close>\<close>

definition wrt_same :: "wrt_arg \<Rightarrow> cref \<Rightarrow> bool" where
  "wrt_same wrt r = (case wrt of WCoords w \<Rightarrow> same_object w r | _ \<Rightarrow> False)"

fun get_parent :: "heap \<Rightarrow> cref \<Rightarrow> addr option" where
  "get_parent h (At a) = parent (h a)"
| "get_parent h (Cache a) = None"
| "get_parent h (Tmp c) = parent c"

definition wrt_parent :: "heap \<Rightarrow> wrt_arg \<Rightarrow> cref \<Rightarrow> bool" where
  "wrt_parent h wrt self =
     (case get_parent h self of None \<Rightarrow> wrt = WNone | Some p \<Rightarrow> wrt_same wrt (At p))"

definition is_cascaded :: "heap \<Rightarrow> cref \<Rightarrow> bool" where
  "is_cascaded h r = (case r of At a \<Rightarrow> cascaded (h a) | _ \<Rightarrow> False)"

text \<open>
  The module-level object \<^verbatim>\<open>worldcoords = CascadedCoords(name='worldcoords')\<close> has a fixed
  address.
\<close>

definition worldcoords_obj :: addr where
  "worldcoords_obj = 0"

text \<open>\<^verbatim>\<open>str.lower\<close> on ASCII letters.\<close>

definition lower_char :: "char \<Rightarrow> char" where
  "lower_char c =
     (case map_of (zip ''ABCDEFGHIJKLMNOPQRSTUVWXYZ'' ''abcdefghijklmnopqrstuvwxyz'') c of
        Some d \<Rightarrow> d
      | None \<Rightarrow> c)"

definition lower :: "string \<Rightarrow> string" where
  "lower s = map lower_char s"

text \<open>
  An operation returns its value, or the exception it raises, together with the store it
  leaves behind. \<open>RecursionError\<close> is raised when the recursion of \<^verbatim>\<open>update\<close> or
  \<^verbatim>\<open>changed\<close> goes deeper than the bound \<open>n\<close> that these functions take (the recursion
  limit of the interpreter): a chain of parents that runs in a cycle ends so.
  \<open>OutsideModel\<close> is no exception of the program: it marks an input on which the program
  goes on with a value the model has no type for (an array that is no 3-vector or
  3\<times>3 matrix stored without a check, a division by zero that numpy answers with nan).
\<close>

datatype error = ValueError | TypeError | RuntimeError | RecursionError | OutsideModel

text \<open>
  The exceptions that the module raises itself: validation errors, argument errors and
  structural errors.
\<close>

definition raised :: "error \<Rightarrow> bool" where
  "raised e = (e = ValueError \<or> e = TypeError \<or> e = RuntimeError)"

definition and_then ::
  "(error + 'a) \<times> heap \<Rightarrow> ('a \<Rightarrow> heap \<Rightarrow> (error + 'b) \<times> heap) \<Rightarrow> (error + 'b) \<times> heap" where
  "and_then m f = (case m of (Inl e, h) \<Rightarrow> (Inl e, h) | (Inr x, h) \<Rightarrow> f x h)"

section \<open>The compositor transform\_coords\<close>

text \<open>
  The argument \<^verbatim>\<open>out\<close>: \<^verbatim>\<open>None\<close>, a coordinates object, or an object of another type.
\<close>

datatype out_arg = OutNone | OutCoords cref | OutOther

text \<open>
  \<^verbatim>\<open>transform_coords(c1, c2, out)\<close>. The second assignment reads its operands after the
  first one has written \<^verbatim>\<open>out._translation\<close>, as in the source, so that \<^verbatim>\<open>out\<close> may be
  \<^verbatim>\<open>c1\<close> or \<^verbatim>\<open>c2\<close>.
\<close>

definition transform_coords :: "heap \<Rightarrow> cref \<Rightarrow> cref \<Rightarrow> out_arg \<Rightarrow> (error + cref) \<times> heap" where
  "transform_coords h c1 c2 out =
     (case out of
        OutOther \<Rightarrow> (Inl TypeError, h)
      | _ \<Rightarrow>
        (let out0 = (case out of OutCoords r \<Rightarrow> r
                     | _ \<Rightarrow> Tmp (new_Coordinates zeros3 eye3));
             (h1, out1) = set_translation h out0
                 (vadd (get_translation h c1) (matvec (get_rotation h c1) (get_translation h c2)));
             (h2, out2) = set_rotation h1 out1
                 (matmul (get_rotation h1 c1) (get_rotation h1 c2))
         in (Inr out2, h2)))"

section \<open>Coordinates: inversion\<close>

text \<open>
  \<^verbatim>\<open>Coordinates.inverse_transformation(dest)\<close>: the translation is computed from the rotation
  that has just been written into \<^verbatim>\<open>dest\<close>.
\<close>

definition inverse_transformation :: "heap \<Rightarrow> cref \<Rightarrow> cref option \<Rightarrow> cref \<times> heap" where
  "inverse_transformation h self dest =
     (let dest0 = (case dest of None \<Rightarrow> Tmp (new_Coordinates zeros3 eye3) | Some d \<Rightarrow> d);
          (h1, dest1) = set_rotation h dest0 (mat_T (get_rotation h self));
          (h2, dest2) = set_translation h1 dest1
              (matvec (get_rotation h1 dest1) (get_translation h1 self));
          (h3, dest3) = set_translation h2 dest2 (vscale (- 1) (get_translation h2 dest2))
      in (dest3, h3))"

section \<open>CascadedCoords: the cached world pose\<close>

text \<open>
  \<^verbatim>\<open>CascadedCoords.update(force)\<close>. The frame itself carries no hook, so
  \<^verbatim>\<open>disable_hook\<close> does nothing. The call \<^verbatim>\<open>self._parent.worldcoords()\<close> is the
  \<^verbatim>\<open>worldcoords\<close> of \<^verbatim>\<open>CascadedCoords\<close> (update the parent, return its \<^verbatim>\<open>_worldcoords\<close>)
  or, for a parent that is a plain \<^verbatim>\<open>Coordinates\<close>, the parent itself. An exception
  leaves \<^verbatim>\<open>_changed\<close> as it is.
\<close>

fun update :: "nat \<Rightarrow> heap \<Rightarrow> addr \<Rightarrow> bool \<Rightarrow> (error + unit) \<times> heap" where
  "update 0 h self force = (Inl RecursionError, h)"
| "update (Suc n) h self force =
     (if \<not> force \<and> \<not> changed_flag (h self) then (Inr (), h)
      else (case parent (h self) of
              Some p \<Rightarrow>
                (case (if cascaded (h p)
                       then (case update n h p False of
                               (Inl e, h1) \<Rightarrow> (Inl e, h1)
                             | (Inr u, h1) \<Rightarrow> (Inr (Cache p), h1))
                       else (Inr (At p), h)) of
                   (Inl e, h1) \<Rightarrow> (Inl e, h1)
                 | (Inr pw, h1) \<Rightarrow>
                     (case transform_coords h1 pw (At self) (OutCoords (Cache self)) of
                        (r, h2) \<Rightarrow> (Inr (), h2(self := (h2 self)\<lparr>changed_flag := False\<rparr>))))
            | None \<Rightarrow>
                (Inr (), h(self := (h self)\<lparr>world_rotation := rotation (h self),
                                           world_translation := translation (h self),
                                           changed_flag := False\<rparr>))))"

text \<open>
  \<^verbatim>\<open>worldcoords()\<close>: \<^verbatim>\<open>CascadedCoords.worldcoords\<close> for a cascaded frame of the store;
  \<^verbatim>\<open>Coordinates.worldcoords\<close> otherwise, which runs the hook (for a \<^verbatim>\<open>_worldcoords\<close> object:
  the \<^verbatim>\<open>update\<close> of its owner) and returns the object itself.
\<close>

definition worldcoords :: "nat \<Rightarrow> heap \<Rightarrow> cref \<Rightarrow> (error + cref) \<times> heap" where
  "worldcoords n h self =
     (case self of
        At a \<Rightarrow>
          (if cascaded (h a)
           then (case update n h a False of
                   (Inl e, h1) \<Rightarrow> (Inl e, h1)
                 | (Inr u, h1) \<Rightarrow> (Inr (Cache a), h1))
           else (Inr (At a), h))
      | Cache a \<Rightarrow>
          (case update n h a False of
             (Inl e, h1) \<Rightarrow> (Inl e, h1)
           | (Inr u, h1) \<Rightarrow> (Inr (Cache a), h1))
      | Tmp c \<Rightarrow> (Inr (Tmp c), h))"

text \<open>
  \<^verbatim>\<open>worldrot()\<close> and \<^verbatim>\<open>worldpos()\<close>: of \<^verbatim>\<open>CascadedCoords\<close> for a cascaded frame, of
  \<^verbatim>\<open>Coordinates\<close> otherwise (the attribute is returned, no hook runs).
\<close>

definition worldrot :: "nat \<Rightarrow> heap \<Rightarrow> cref \<Rightarrow> (error + mat3) \<times> heap" where
  "worldrot n h self =
     (if is_cascaded h self
      then and_then (worldcoords n h self) (\<lambda>w h1. (Inr (get_rotation h1 w), h1))
      else (Inr (get_rotation h self), h))"

definition worldpos :: "nat \<Rightarrow> heap \<Rightarrow> cref \<Rightarrow> (error + vec3) \<times> heap" where
  "worldpos n h self =
     (if is_cascaded h self
      then and_then (worldcoords n h self) (\<lambda>w h1. (Inr (get_translation h1 w), h1))
      else (Inr (get_translation h self), h))"

text \<open>\<^verbatim>\<open>Coordinates.copy_coords\<close>\<close>

definition copy_coords :: "nat \<Rightarrow> heap \<Rightarrow> cref \<Rightarrow> (error + cref) \<times> heap" where
  "copy_coords n h self =
     and_then (worldpos n h self) (\<lambda>pos h1.
     and_then (worldrot n h1 self) (\<lambda>rot h2.
       (Inr (Tmp (new_Coordinates pos rot)), h2)))"

text \<open>\<^verbatim>\<open>CascadedCoords.parentcoords\<close>\<close>

definition parentcoords :: "nat \<Rightarrow> heap \<Rightarrow> addr \<Rightarrow> (error + cref) \<times> heap" where
  "parentcoords n h self =
     (case parent (h self) of
        Some p \<Rightarrow> worldcoords n h (At p)
      | None \<Rightarrow> (Inr (At worldcoords_obj), h))"

text \<open>
  \<^verbatim>\<open>CascadedCoords.changed\<close>. The list comprehension calls \<^verbatim>\<open>changed\<close> on each descendant
  in turn; on a descendant that is a plain \<^verbatim>\<open>Coordinates\<close> this is \<^verbatim>\<open>Coordinates.changed\<close>,
  which does nothing. The lists of return values are not used by any caller.
\<close>

fun changed :: "nat \<Rightarrow> heap \<Rightarrow> addr \<Rightarrow> (error + unit) \<times> heap" where
  "changed 0 h self = (Inl RecursionError, h)"
| "changed (Suc n) h self =
     (if \<not> changed_flag (h self)
      then fold (\<lambda>c (r, h'). case r of
                     Inl e \<Rightarrow> (Inl e, h')
                   | Inr u \<Rightarrow> (if cascaded (h' c) then changed n h' c else (Inr (), h')))
             (descendants (h self))
             (Inr (), h(self := (h self)\<lparr>changed_flag := True\<rparr>))
      else (Inr (), h))"

section \<open>Coordinates: transform and transformation\<close>

text \<open>\<^verbatim>\<open>Coordinates.transform(c, wrt, out)\<close>\<close>

definition Coordinates_transform ::
  "nat \<Rightarrow> heap \<Rightarrow> cref \<Rightarrow> cref \<Rightarrow> wrt_arg \<Rightarrow> out_arg \<Rightarrow> (error + cref) \<times> heap" where
  "Coordinates_transform n h self c wrt out =
     (let out0 = (case out of OutNone \<Rightarrow> OutCoords self | _ \<Rightarrow> out) in
      if wrt = WStr ''local'' \<or> wrt_same wrt self then transform_coords h self c out0
      else if wrt = WStr ''parent'' \<or> wrt_parent h wrt self \<or> wrt = WStr ''world''
        then transform_coords h c self out0
      else (case wrt of
              WCoords w \<Rightarrow>
                (case inverse_transformation h w None of
                   (winv, h0) \<Rightarrow>
                     and_then (transform_coords h0 winv self out0) (\<lambda>out1 h1.
                     and_then (transform_coords h1 c out1 (OutCoords out1)) (\<lambda>out2 h2.
                     and_then (worldcoords n h2 w) (\<lambda>ww h3.
                       transform_coords h3 ww out2 (OutCoords out2)))))
            | _ \<Rightarrow> (Inl ValueError, h)))"

text \<open>\<^verbatim>\<open>Coordinates.transformation(c2, wrt)\<close>\<close>

definition transformation ::
  "nat \<Rightarrow> heap \<Rightarrow> cref \<Rightarrow> cref \<Rightarrow> wrt_arg \<Rightarrow> (error + cref) \<times> heap" where
  "transformation n h self c2 wrt =
     and_then (worldcoords n h c2) (\<lambda>c2w h1.
     and_then (worldcoords n h1 self) (\<lambda>c1 h2.
       (case inverse_transformation h2 c1 None of
          (iv, h3) \<Rightarrow>
            if wrt = WStr ''local'' \<or> wrt_same wrt self
              then transform_coords h3 iv c2w (OutCoords iv)
            else if wrt = WStr ''parent'' \<or> wrt_parent h3 wrt self \<or> wrt = WStr ''world''
              then transform_coords h3 c2w iv (OutCoords iv)
            else (case wrt of
                    WCoords w \<Rightarrow>
                      and_then (worldcoords n h3 w) (\<lambda>xw h4.
                      and_then (transform_coords h4 c2w iv (OutCoords iv)) (\<lambda>iv1 h5.
                        (case inverse_transformation h5 xw None of
                           (xinv, h6) \<Rightarrow>
                             and_then (transform_coords h6 xinv iv1 (OutCoords iv1)) (\<lambda>iv2 h7.
                               transform_coords h7 iv2 xw (OutCoords iv2)))))
                  | _ \<Rightarrow> (Inl ValueError, h3)))))"

section \<open>Coordinates: validated setters\<close>

text \<open>
  The value assigned to \<^verbatim>\<open>rotation\<close>: an array of shape (3, 3), (4,) or (3,), or anything
  else. The body of the setter up to the assignment: a quaternion whose norm is off by more
  than 1e-3 is refused, and \<^verbatim>\<open>_check_valid_rotation\<close> has the last word (it refuses what
  is no 3\<times>3 array).
\<close>

datatype rot_arg = RotMatrix mat3 | RotQuaternion quat | RotYPR vec3 | RotOther

definition checked_rotation :: "math \<Rightarrow> rot_arg \<Rightarrow> error + mat3" where
  "checked_rotation M r =
     (case (case r of
              RotQuaternion q \<Rightarrow>
                (if \<bar>norm4 q - 1\<bar> > 1 / 1000 then Inl ValueError
                 else Inr (Some (quaternion2matrix M q)))
            | RotYPR v \<Rightarrow> Inr (Some (quaternion2matrix M (rpy2quaternion M v)))
            | RotMatrix m \<Rightarrow> Inr (Some m)
            | RotOther \<Rightarrow> Inr None) of
        Inl e \<Rightarrow> Inl e
      | Inr None \<Rightarrow> Inl ValueError
      | Inr (Some m) \<Rightarrow> (if check_valid_rotation M m then Inr m else Inl ValueError))"

text \<open>The setter of \<^verbatim>\<open>rotation\<close>.\<close>

definition rotation_setter :: "math \<Rightarrow> heap \<Rightarrow> cref \<Rightarrow> rot_arg \<Rightarrow> (error + cref) \<times> heap" where
  "rotation_setter M h self r =
     (case checked_rotation M r of
        Inl e \<Rightarrow> (Inl e, h)
      | Inr m \<Rightarrow> (case set_rotation h self m of (h1, self1) \<Rightarrow> (Inr self1, h1)))"

text \<open>
  The setter of \<^verbatim>\<open>translation\<close>. Modelled from the spec: \<^verbatim>\<open>_check_valid_translation\<close> is
  missing from the source; it accepts any 3-component numeric sequence and fails with a
  validation error on a wrong length or type.
\<close>

datatype pos_arg = PosVec vec3 | PosOther

definition translation_setter :: "heap \<Rightarrow> cref \<Rightarrow> pos_arg \<Rightarrow> (error + cref) \<times> heap" where
  "translation_setter h self p =
     (case p of
        PosOther \<Rightarrow> (Inl ValueError, h)
      | PosVec v \<Rightarrow> (case set_translation h self v of (h1, self1) \<Rightarrow> (Inr self1, h1)))"



section \<open>Coordinates: newcoords\<close>

text \<open>
  The arguments \<^verbatim>\<open>c\<close> and \<^verbatim>\<open>pos\<close> of \<^verbatim>\<open>newcoords\<close>: with \<^verbatim>\<open>pos=None\<close>, \<^verbatim>\<open>c\<close> is a coordinates
  object; otherwise \<^verbatim>\<open>c\<close> is a rotation and \<^verbatim>\<open>pos\<close> a translation. An array argument is
  either the very array object that \<^verbatim>\<open>self\<close> holds (\<open>Same\<close>: the test on \<^verbatim>\<open>id\<close> then skips
  the assignment and its check) or another array.
\<close>

datatype 'a arr = Same | Arr 'a

datatype target = FromCoords cref | FromArrays "rot_arg arr" "pos_arg arr"

datatype rel_arg = RelNone | RelStr string | RelCoords cref

text \<open>
  \<^verbatim>\<open>Coordinates(pos=pos, rot=c, check_validity=check_validity)\<close> as \<^verbatim>\<open>newcoords\<close> builds it
  (a 4\<times>4 matrix for \<^verbatim>\<open>pos\<close> is not modelled).
\<close>

definition make_temp ::
  "math \<Rightarrow> heap \<Rightarrow> cref \<Rightarrow> rot_arg arr \<Rightarrow> pos_arg arr \<Rightarrow> bool \<Rightarrow> error + Coordinates" where
  "make_temp M h self c pos check_validity =
     (let r = (case c of Same \<Rightarrow> RotMatrix (get_rotation h self) | Arr x \<Rightarrow> x);
          p = (case pos of Same \<Rightarrow> PosVec (get_translation h self) | Arr x \<Rightarrow> x)
      in if check_validity
         then (case checked_rotation M r of
                 Inl e \<Rightarrow> Inl e
               | Inr m \<Rightarrow> (case p of PosOther \<Rightarrow> Inl ValueError
                           | PosVec v \<Rightarrow> Inr (new_Coordinates v m)))
         else (case (r, p) of
                 (RotMatrix m, PosVec v) \<Rightarrow> Inr (new_Coordinates v m)
               | _ \<Rightarrow> Inl OutsideModel))"

text \<open>The second half of \<^verbatim>\<open>Coordinates.newcoords\<close>, from \<^verbatim>\<open>if pos is not None\<close> on.\<close>

definition newcoords_commit ::
  "math \<Rightarrow> heap \<Rightarrow> cref \<Rightarrow> target \<Rightarrow> bool \<Rightarrow> (error + cref) \<times> heap" where
  "newcoords_commit M h self tg check_validity =
     (case tg of
        FromArrays c pos \<Rightarrow>
          (if check_validity
           then and_then (case c of Same \<Rightarrow> (Inr self, h) | Arr r \<Rightarrow> rotation_setter M h self r)
                  (\<lambda>self1 h1. case pos of Same \<Rightarrow> (Inr self1, h1)
                                | Arr p \<Rightarrow> translation_setter h1 self1 p)
           else and_then (case c of Same \<Rightarrow> (Inr self, h)
                          | Arr (RotMatrix m) \<Rightarrow>
                              (case set_rotation h self m of (h1, self1) \<Rightarrow> (Inr self1, h1))
                          | Arr _ \<Rightarrow> (Inl OutsideModel, h))
                  (\<lambda>self1 h1. case pos of Same \<Rightarrow> (Inr self1, h1)
                                | Arr (PosVec v) \<Rightarrow>
                                    (case set_translation h1 self1 v of
                                       (h2, self2) \<Rightarrow> (Inr self2, h2))
                                | Arr PosOther \<Rightarrow> (Inl OutsideModel, h1)))
      | FromCoords c \<Rightarrow>
          (if same_object c self then (Inr self, h)
           else if check_validity
           then and_then (rotation_setter M h self (RotMatrix (get_rotation h c)))
                  (\<lambda>self1 h1. translation_setter h1 self1 (PosVec (get_translation h1 c)))
           else (case set_rotation h self (get_rotation h c) of
                   (h1, self1) \<Rightarrow>
                     (case set_translation h1 self1 (get_translation h1 c) of
                        (h2, self2) \<Rightarrow> (Inr self2, h2)))))"

text \<open>
  \<^verbatim>\<open>Coordinates.newcoords(c, pos, check_validity, relative_coords)\<close>. The product
  \<^verbatim>\<open>relative_coords * c\<close> is \<^verbatim>\<open>transform_coords(relative_coords, c)\<close>.
\<close>

definition Coordinates_newcoords ::
  "math \<Rightarrow> heap \<Rightarrow> cref \<Rightarrow> target \<Rightarrow> bool \<Rightarrow> rel_arg \<Rightarrow> (error + cref) \<times> heap" where
  "Coordinates_newcoords M h self tg check_validity relative_coords =
     (case (case relative_coords of
              RelNone \<Rightarrow> Inr None
            | RelStr s \<Rightarrow>
                (if lower s = ''parent''
                 then (case get_parent h self of None \<Rightarrow> Inl ValueError
                       | Some p \<Rightarrow> Inr (Some (At p)))
                 else if lower s = ''world'' then Inr (Some (At worldcoords_obj))
                 else if lower s = ''local'' then Inr None
                 else Inl ValueError)
            | RelCoords r \<Rightarrow> Inr (Some r)) of
        Inl e \<Rightarrow> (Inl e, h)
      | Inr None \<Rightarrow> newcoords_commit M h self tg check_validity
      | Inr (Some rc) \<Rightarrow>
          (case tg of
             FromCoords c \<Rightarrow>
               and_then (transform_coords h rc c OutNone)
                 (\<lambda>c1 h1. newcoords_commit M h1 self (FromCoords c1) check_validity)
           | FromArrays c pos \<Rightarrow>
               (case make_temp M h self c pos check_validity of
                  Inl e \<Rightarrow> (Inl e, h)
                | Inr temp \<Rightarrow>
                    and_then (transform_coords h rc (Tmp temp) OutNone)
                      (\<lambda>temp1 h1. newcoords_commit M h1 self
                          (FromArrays (Arr (RotMatrix (get_rotation h1 temp1)))
                                      (Arr (PosVec (get_translation h1 temp1))))
                          check_validity))))"

text \<open>
  \<^verbatim>\<open>CascadedCoords.newcoords(target, pos, check_validity, relative_coords)\<close>; the call
  \<^verbatim>\<open>inverse_transformation().transform(target)\<close> is \<^verbatim>\<open>Coordinates.transform\<close> with the
  defaults \<^verbatim>\<open>wrt='local'\<close> and \<^verbatim>\<open>out=None\<close>.
\<close>

definition CascadedCoords_newcoords ::
  "math \<Rightarrow> nat \<Rightarrow> heap \<Rightarrow> addr \<Rightarrow> target \<Rightarrow> bool \<Rightarrow> rel_arg \<Rightarrow> (error + cref) \<times> heap" where
  "CascadedCoords_newcoords M n h self tg check_validity relative_coords =
     and_then
       (case parent (h self) of
          None \<Rightarrow> (Inr tg, h)
        | Some p \<Rightarrow>
            (case relative_coords of
               RelStr s \<Rightarrow>
                 (if lower s = ''world''
                  then (case tg of
                          FromCoords t \<Rightarrow>
                            and_then (worldcoords n h (At p)) (\<lambda>pw h1.
                              (case inverse_transformation h1 pw None of
                                 (iv, h2) \<Rightarrow>
                                   and_then (Coordinates_transform n h2 iv t (WStr ''local'') OutNone)
                                     (\<lambda>t1 h3. (Inr (FromCoords t1), h3))))
                        | FromArrays c pos \<Rightarrow>
                            (case make_temp M h (At self) c pos check_validity of
                               Inl e \<Rightarrow> (Inl e, h)
                             | Inr temp \<Rightarrow>
                                 and_then (worldcoords n h (At p)) (\<lambda>pw h1.
                                   (case inverse_transformation h1 pw None of
                                      (iv, h2) \<Rightarrow>
                                        and_then (Coordinates_transform n h2 iv (Tmp temp)
                                                    (WStr ''local'') OutNone)
                                          (\<lambda>t1 h3.
                                             (Inr (FromArrays
                                                     (Arr (RotMatrix (get_rotation h3 t1)))
                                                     (Arr (PosVec (get_translation h3 t1)))), h3))))))
                  else if lower s = ''local'' then (Inr tg, h)
                  else if lower s = ''parent'' then (Inr tg, h)
                  else (Inl ValueError, h))
             | RelCoords rc \<Rightarrow>
                 (case tg of
                    FromCoords t \<Rightarrow>
                      and_then (transformation n h rc t (WStr ''local''))
                        (\<lambda>t1 h1. (Inr (FromCoords t1), h1))
                  | FromArrays c pos \<Rightarrow>
                      (case make_temp M h (At self) c pos check_validity of
                         Inl e \<Rightarrow> (Inl e, h)
                       | Inr temp \<Rightarrow>
                           and_then (transformation n h rc (Tmp temp) (WStr ''local''))
                             (\<lambda>t1 h1.
                                (Inr (FromArrays (Arr (RotMatrix (get_rotation h1 t1)))
                                                 (Arr (PosVec (get_translation h1 t1)))), h1))))
             | RelNone \<Rightarrow> (Inl TypeError, h)))
       (\<lambda>tg1 h1.
          and_then (Coordinates_newcoords M h1 (At self) tg1 check_validity RelNone) (\<lambda>self1 h2.
          and_then (changed n h2 self) (\<lambda>u h3. (Inr (At self), h3))))"

text \<open>The call \<^verbatim>\<open>x.newcoords(...)\<close>, dispatched on the class of \<^verbatim>\<open>x\<close>.\<close>

definition newcoords ::
  "math \<Rightarrow> nat \<Rightarrow> heap \<Rightarrow> cref \<Rightarrow> target \<Rightarrow> bool \<Rightarrow> rel_arg \<Rightarrow> (error + cref) \<times> heap" where
  "newcoords M n h self tg check_validity relative_coords =
     (case self of
        At a \<Rightarrow>
          (if cascaded (h a)
           then CascadedCoords_newcoords M n h a tg check_validity relative_coords
           else Coordinates_newcoords M h self tg check_validity relative_coords)
      | _ \<Rightarrow> Coordinates_newcoords M h self tg check_validity relative_coords)"

section \<open>Coordinates: translate and rotate\<close>

text \<open>\<^verbatim>\<open>Coordinates.parent_orientation(v, wrt)\<close>\<close>

definition parent_orientation ::
  "nat \<Rightarrow> heap \<Rightarrow> cref \<Rightarrow> vec3 \<Rightarrow> wrt_arg \<Rightarrow> (error + vec3) \<times> heap" where
  "parent_orientation n h self v wrt =
     (if wrt = WStr ''local'' \<or> wrt_same wrt self
        then (Inr (matvec (get_rotation h self) v), h)
      else if wrt = WStr ''parent'' \<or> wrt_parent h wrt self \<or> wrt = WStr ''world''
        then (Inr v, h)
      else (case wrt of
              WCoords w \<Rightarrow> and_then (worldrot n h w) (\<lambda>R h1. (Inr (matvec R v), h1))
            | _ \<Rightarrow> (Inl ValueError, h)))"

text \<open>\<^verbatim>\<open>Coordinates.translate(vec, wrt)\<close>, which \<^verbatim>\<open>CascadedCoords\<close> inherits.\<close>

definition translate ::
  "math \<Rightarrow> nat \<Rightarrow> heap \<Rightarrow> cref \<Rightarrow> vec3 \<Rightarrow> wrt_arg \<Rightarrow> (error + cref) \<times> heap" where
  "translate M n h self vec wrt =
     and_then (parent_orientation n h self vec wrt) (\<lambda>po h1.
       newcoords M n h1 self
         (FromArrays Same (Arr (PosVec (vadd po (get_translation h1 self)))))
         False (RelStr ''local''))"

text \<open>\<^verbatim>\<open>Coordinates.rotate_with_matrix(mat, wrt)\<close>\<close>

definition Coordinates_rotate_with_matrix ::
  "math \<Rightarrow> nat \<Rightarrow> heap \<Rightarrow> cref \<Rightarrow> mat3 \<Rightarrow> wrt_arg \<Rightarrow> (error + cref) \<times> heap" where
  "Coordinates_rotate_with_matrix M n h self mat wrt =
     (if wrt = WStr ''local'' \<or> wrt_same wrt self
        then newcoords M n h self
               (FromArrays (Arr (RotMatrix (matmul (get_rotation h self) mat))) Same)
               False (RelStr ''local'')
      else if wrt = WStr ''parent'' \<or> wrt_parent h wrt self \<or> wrt = WStr ''world''
              \<or> wrt = WNone \<or> wrt_same wrt (At worldcoords_obj)
        then newcoords M n h self
               (FromArrays (Arr (RotMatrix (matmul mat (get_rotation h self)))) Same)
               False (RelStr ''local'')
      else (case wrt of
              WCoords w \<Rightarrow>
                and_then (worldrot n h w) (\<lambda>r2 h1.
                  (let r2t = mat_T r2;
                       r2t = matmul mat r2t;
                       r2t = matmul r2 r2t
                   in (case set_rotation h1 self (matmul r2t (get_rotation h1 self)) of
                         (h2, self2) \<Rightarrow> (Inr self2, h2))))
            | _ \<Rightarrow> (Inl ValueError, h)))"

text \<open>
  The arguments \<^verbatim>\<open>theta\<close> and \<^verbatim>\<open>axis\<close> of \<^verbatim>\<open>rotate\<close>: an angle with an axis, or a matrix in
  place of \<^verbatim>\<open>theta\<close> with \<^verbatim>\<open>axis=None\<close>. The other combinations are outside the model.
\<close>

datatype theta_arg = Angle real | ThetaMatrix mat3

text \<open>\<^verbatim>\<open>Coordinates.rotate(theta, axis, wrt, skip_normalization)\<close>\<close>

definition Coordinates_rotate ::
  "math \<Rightarrow> nat \<Rightarrow> heap \<Rightarrow> cref \<Rightarrow> theta_arg \<Rightarrow> axis_arg \<Rightarrow> wrt_arg \<Rightarrow> bool
     \<Rightarrow> (error + cref) \<times> heap" where
  "Coordinates_rotate M n h self theta axis wrt skip_normalization =
     and_then
       (case (theta, axis) of
          (Angle th, AxisArray v) \<Rightarrow>
            Coordinates_rotate_with_matrix M n h self
              (rotation_matrix M th axis skip_normalization) wrt
        | (ThetaMatrix m, AxisNone) \<Rightarrow> Coordinates_rotate_with_matrix M n h self m wrt
        | (Angle th, AxisToken s) \<Rightarrow>
            (if wrt = WStr ''local'' \<or> wrt_same wrt self
               then (case set_rotation h self
                       (rotate_matrix M (get_rotation h self) th axis False skip_normalization) of
                       (h1, self1) \<Rightarrow> (Inr self1, h1))
             else if wrt = WStr ''parent'' \<or> wrt = WStr ''world''
               then (case set_rotation h self
                       (rotate_matrix M (get_rotation h self) th axis True skip_normalization) of
                       (h1, self1) \<Rightarrow> (Inr self1, h1))
             else (case wrt of
                     WCoords w \<Rightarrow>
                       Coordinates_rotate_with_matrix M n h self
                         (rotation_matrix M th axis skip_normalization) wrt
                   | _ \<Rightarrow> (Inl ValueError, h)))
        | _ \<Rightarrow> (Inl OutsideModel, h))
       (\<lambda>self1 h1. newcoords M n h1 self1 (FromArrays Same Same) False (RelStr ''local''))"

section \<open>CascadedCoords: rotate and transform\<close>

text \<open>\<^verbatim>\<open>CascadedCoords.rotate_with_matrix(matrix, wrt)\<close>\<close>

definition CascadedCoords_rotate_with_matrix ::
  "math \<Rightarrow> nat \<Rightarrow> heap \<Rightarrow> addr \<Rightarrow> mat3 \<Rightarrow> wrt_arg \<Rightarrow> (error + cref) \<times> heap" where
  "CascadedCoords_rotate_with_matrix M n h self matrix wrt =
     (if wrt = WStr ''local'' \<or> wrt_same wrt (At self)
        then (case set_rotation h (At self) (matmul (rotation (h self)) matrix) of
                (h1, self1) \<Rightarrow>
                  newcoords M n h1 (At self) (FromArrays Same Same) False (RelStr ''local''))
      else if wrt = WStr ''parent'' \<or> wrt_parent h wrt (At self)
        then newcoords M n h (At self)
               (FromArrays (Arr (RotMatrix (matmul matrix (rotation (h self))))) Same)
               False (RelStr ''local'')
      else and_then (parentcoords n h self) (\<lambda>parent_coords h1.
             (let parent_rot = get_rotation h1 parent_coords in
              and_then (case wrt of
                          WCoords w \<Rightarrow>
                            and_then (worldrot n h1 w) (\<lambda>wrt_rot h2.
                              (Inr (matmul (matmul wrt_rot matrix) (mat_T wrt_rot)), h2))
                        | _ \<Rightarrow> (Inr matrix, h1))
                (\<lambda>matrix1 h2.
                   (let matrix2 = matmul matrix1 parent_rot;
                        matrix3 = matmul (mat_T parent_rot) matrix2;
                        rotation1 = matmul matrix3 (rotation (h2 self))
                    in newcoords M n h2 (At self)
                         (FromArrays (Arr (RotMatrix rotation1)) Same)
                         False (RelStr ''local''))))))"

text \<open>
  \<^verbatim>\<open>CascadedCoords.rotate(theta, axis, wrt, skip_normalization)\<close>. The branches for
  \<^verbatim>\<open>'local'\<close> and for \<^verbatim>\<open>'parent'\<close> make the same call of \<^verbatim>\<open>rotate_matrix\<close>, without the
  argument \<^verbatim>\<open>world\<close>.
\<close>

definition CascadedCoords_rotate ::
  "math \<Rightarrow> nat \<Rightarrow> heap \<Rightarrow> addr \<Rightarrow> theta_arg \<Rightarrow> axis_arg \<Rightarrow> wrt_arg \<Rightarrow> bool
     \<Rightarrow> (error + cref) \<times> heap" where
  "CascadedCoords_rotate M n h self theta axis wrt skip_normalization =
     (case (theta, axis) of
        (Angle th, AxisArray v) \<Rightarrow>
          CascadedCoords_rotate_with_matrix M n h self
            (rotation_matrix M th axis skip_normalization) wrt
      | (Angle th, AxisToken s) \<Rightarrow>
          (if wrt = WStr ''local'' \<or> wrt_same wrt (At self)
             then newcoords M n h (At self)
                    (FromArrays (Arr (RotMatrix
                       (rotate_matrix M (rotation (h self)) th axis False skip_normalization))) Same)
                    False (RelStr ''local'')
           else if wrt = WStr ''parent'' \<or> wrt_parent h wrt (At self)
             then newcoords M n h (At self)
                    (FromArrays (Arr (RotMatrix
                       (rotate_matrix M (rotation (h self)) th axis False skip_normalization))) Same)
                    False (RelStr ''local'')
           else CascadedCoords_rotate_with_matrix M n h self
                  (rotation_matrix M th axis skip_normalization) wrt)
      | _ \<Rightarrow> (Inl OutsideModel, h))"

text \<open>The call \<^verbatim>\<open>x.rotate(...)\<close>, dispatched on the class of \<^verbatim>\<open>x\<close>.\<close>

definition rotate ::
  "math \<Rightarrow> nat \<Rightarrow> heap \<Rightarrow> cref \<Rightarrow> theta_arg \<Rightarrow> axis_arg \<Rightarrow> wrt_arg \<Rightarrow> bool
     \<Rightarrow> (error + cref) \<times> heap" where
  "rotate M n h self theta axis wrt skip_normalization =
     (case self of
        At a \<Rightarrow>
          (if cascaded (h a)
           then CascadedCoords_rotate M n h a theta axis wrt skip_normalization
           else Coordinates_rotate M n h self theta axis wrt skip_normalization)
      | _ \<Rightarrow> Coordinates_rotate M n h self theta axis wrt skip_normalization)"

text \<open>\<^verbatim>\<open>CascadedCoords.transform(c, wrt, out)\<close>\<close>

definition CascadedCoords_transform ::
  "math \<Rightarrow> nat \<Rightarrow> heap \<Rightarrow> addr \<Rightarrow> cref \<Rightarrow> wrt_arg \<Rightarrow> out_arg \<Rightarrow> (error + cref) \<times> heap" where
  "CascadedCoords_transform M n h self c wrt out =
     (let out0 = (case out of OutNone \<Rightarrow> OutCoords (At self) | _ \<Rightarrow> out) in
      and_then
        (case wrt of
           WCoords w \<Rightarrow>
             and_then (parentcoords n h self) (\<lambda>pc h1.
             and_then (transform_coords h1 pc (At self) out0) (\<lambda>out1 h2.
               (case inverse_transformation h2 w None of
                  (winv, h3) \<Rightarrow>
                    and_then (transform_coords h3 winv out1 (OutCoords out1)) (\<lambda>out2 h4.
                    and_then (transform_coords h4 c out2 (OutCoords out2)) (\<lambda>out3 h5.
                    and_then (worldcoords n h5 w) (\<lambda>ww h6.
                    and_then (transform_coords h6 ww out3 (OutCoords out3)) (\<lambda>out4 h7.
                    and_then (parentcoords n h7 self) (\<lambda>pc2 h8.
                      (case inverse_transformation h8 pc2 None of
                         (pinv, h9) \<Rightarrow>
                           transform_coords h9 pinv out4 (OutCoords out4))))))))))
         | _ \<Rightarrow>
             (if wrt = WStr ''local'' then transform_coords h (At self) c out0
              else if wrt = WStr ''parent'' \<or> wrt_parent h wrt (At self)
                then transform_coords h c (At self) out0
              else if wrt = WStr ''world''
                then and_then (parentcoords n h self) (\<lambda>pc h1.
                     and_then (transform_coords h1 pc (At self) out0) (\<lambda>out1 h2.
                     and_then (transform_coords h2 c out1 (OutCoords out1)) (\<lambda>out2 h3.
                       (case inverse_transformation h3 pc None of
                          (pinv, h4) \<Rightarrow>
                            transform_coords h4 pinv out2 (OutCoords out2)))))
              else (Inl ValueError, h)))
        (\<lambda>out5 h10. newcoords M n h10 out5 (FromArrays Same Same) False (RelStr ''local'')))"

text \<open>The call \<^verbatim>\<open>x.transform(...)\<close>, dispatched on the class of \<^verbatim>\<open>x\<close>.\<close>

definition transform ::
  "math \<Rightarrow> nat \<Rightarrow> heap \<Rightarrow> cref \<Rightarrow> cref \<Rightarrow> wrt_arg \<Rightarrow> out_arg \<Rightarrow> (error + cref) \<times> heap" where
  "transform M n h self c wrt out =
     (case self of
        At a \<Rightarrow>
          (if cascaded (h a) then CascadedCoords_transform M n h a c wrt out
           else Coordinates_transform n h self c wrt out)
      | _ \<Rightarrow> Coordinates_transform n h self c wrt out)"

section \<open>CascadedCoords: assoc and dissoc\<close>



text \<open>\<^verbatim>\<open>CascadedCoords.dissoc(child)\<close>\<close>

definition dissoc :: "math \<Rightarrow> nat \<Rightarrow> heap \<Rightarrow> addr \<Rightarrow> addr \<Rightarrow> (error + unit) \<times> heap" where
  "dissoc M n h self child =
     (if child \<in> set (descendants (h self))
      then and_then (worldcoords n h (At child)) (\<lambda>cw h1.
           and_then (copy_coords n h1 cw) (\<lambda>c h2.
             (let h3 = h2(self := (h2 self)\<lparr>descendants := remove1 child (descendants (h2 self))\<rparr>);
                  h4 = h3(child := (h3 child)\<lparr>parent := None\<rparr>)
              in and_then (newcoords M n h4 (At child) (FromCoords c) False (RelStr ''local''))
                   (\<lambda>c1 h5. (Inr (), h5)))))
      else (Inr (), h))"

section \<open>Interpolation\<close>


section \<open>An instance of the collaborators\<close>

text \<open>
  The examples below run the model with the usual formulas in place of the missing
  functions: the axis-angle matrices about the axes \<^verbatim>\<open>'x'\<close>, \<^verbatim>\<open>'y'\<close> and \<^verbatim>\<open>'z'\<close>, the
  rotation matrix of a unit quaternion \<open>(w, x, y, z)\<close>, the quaternion of a rotation
  matrix of trace above \<open>- 1\<close>, and orthonormality as the validity of a rotation.
\<close>

definition axis_rotation :: "real \<Rightarrow> axis_arg \<Rightarrow> bool \<Rightarrow> mat3" where
  "axis_rotation theta axis skip_normalization =
     (if axis = AxisToken ''x''
        then ((1, 0, 0), (0, cos theta, - sin theta), (0, sin theta, cos theta))
      else if axis = AxisToken ''y''
        then ((cos theta, 0, sin theta), (0, 1, 0), (- sin theta, 0, cos theta))
      else if axis = AxisToken ''z''
        then ((cos theta, - sin theta, 0), (sin theta, cos theta, 0), (0, 0, 1))
      else eye3)"

fun quat_matrix :: "quat \<Rightarrow> mat3" where
  "quat_matrix (w, x, y, z) =
     ((1 - 2 * (y * y + z * z), 2 * (x * y - w * z), 2 * (x * z + w * y)),
      (2 * (x * y + w * z), 1 - 2 * (x * x + z * z), 2 * (y * z - w * x)),
      (2 * (x * z - w * y), 2 * (y * z + w * x), 1 - 2 * (x * x + y * y)))"

fun matrix_quat :: "mat3 \<Rightarrow> quat" where
  "matrix_quat ((a, b, c), (d, e, f), (g, h, i)) =
     (let w = sqrt (1 + a + e + i) / 2
      in (w, (h - f) / (4 * w), (c - g) / (4 * w), (d - b) / (4 * w)))"

definition example_math :: math where
  "example_math =
     \<lparr>check_valid_rotation = orthonormal,
      quaternion2matrix = quat_matrix,
      matrix2quaternion = matrix_quat,
      rpy2quaternion = (\<lambda>v. (1, 0, 0, 0)),
      rotation_matrix = axis_rotation\<rparr>"

text \<open>
  A store for the examples: address 0 holds the module-level \<^verbatim>\<open>worldcoords\<close>, every other
  address a \<^verbatim>\<open>CascadedCoords\<close> as its constructor leaves it for the given pose.
\<close>

definition new_CascadedCoords :: "vec3 \<Rightarrow> mat3 \<Rightarrow> Coordinates" where
  "new_CascadedCoords pos rot =
     \<lparr>rotation = rot, translation = pos, name = '''', parent = None, cascaded = True,
      changed_flag = True, descendants = [], world_rotation = rot,
      world_translation = pos\<rparr>"

definition rot_z90 :: mat3 where
  "rot_z90 = ((0, - 1, 0), (1, 0, 0), (0, 0, 1))"

definition rot_x90 :: mat3 where
  "rot_x90 = ((1, 0, 0), (0, 0, - 1), (0, 1, 0))"

text \<open>
  The store in which every address holds a fresh \<^verbatim>\<open>CascadedCoords\<close> at the identity pose,
  after the world pose of the node at address 1 has been read once: the node is \<open>CLEAN\<close>.
\<close>

definition clean_root :: heap where
  "clean_root = snd (worldcoords 2 (\<lambda>a. new_CascadedCoords zeros3 eye3) (At 1))"

section \<open>Shape of the tree\<close>

text \<open>
  \<open>chain_ok n h a\<close>: the chain of parents of \<open>a\<close> ends at a frame without parent in
  fewer than \<open>n\<close> steps. \<open>subtree_avoids n h a ps\<close>: the frames registered as descendants
  below \<open>a\<close> lie less than \<open>n\<close> levels deep, and \<open>a\<close> and all of them are not in \<open>ps\<close>.
  With these bounds the recursions of \<^verbatim>\<open>update\<close> and \<^verbatim>\<open>changed\<close> stay within the limit \<open>n\<close>.
\<close>

fun chain_ok :: "nat \<Rightarrow> heap \<Rightarrow> addr \<Rightarrow> bool" where
  "chain_ok 0 h a = False"
| "chain_ok (Suc n) h a = (case parent (h a) of None \<Rightarrow> True | Some p \<Rightarrow> chain_ok n h p)"

fun subtree_avoids :: "nat \<Rightarrow> heap \<Rightarrow> addr \<Rightarrow> addr list \<Rightarrow> bool" where
  "subtree_avoids 0 h a ps = False"
| "subtree_avoids (Suc n) h a ps =
     (a \<notin> set ps \<and> list_all (\<lambda>c. subtree_avoids n h c ps) (descendants (h a)))"

text \<open>
  \<open>dirtied h h'\<close>: the store \<open>h'\<close> is \<open>h\<close> with some frames moved from \<open>CLEAN\<close> to \<open>DIRTY\<close>.
\<close>

definition unflag :: "Coordinates \<Rightarrow> Coordinates" where
  "unflag c = c\<lparr>changed_flag := False\<rparr>"

definition dirtied :: "heap \<Rightarrow> heap \<Rightarrow> bool" where
  "dirtied h h' = (\<forall>x. unflag (h' x) = unflag (h x) \<and> (changed_flag (h x) \<longrightarrow> changed_flag (h' x)))"

text \<open>
  The part of a frame that is no cache: \<open>same_frames h h'\<close> holds when two stores differ at
  most in cached world poses and in \<^verbatim>\<open>_changed\<close> flags.
\<close>

definition locals :: "Coordinates \<Rightarrow> mat3 \<times> vec3 \<times> string \<times> addr option \<times> bool \<times> addr list" where
  "locals c = (rotation c, translation c, name c, parent c, cascaded c, descendants c)"

definition same_frames :: "heap \<Rightarrow> heap \<Rightarrow> bool" where
  "same_frames h h' = (\<forall>x. locals (h' x) = locals (h x))"

text \<open>\<open>kept a h h'\<close>: the frame at \<open>a\<close> has the same rotation and translation in both stores.\<close>

definition kept :: "addr \<Rightarrow> heap \<Rightarrow> heap \<Rightarrow> bool" where
  "kept a h h' = (rotation (h' a) = rotation (h a) \<and> translation (h' a) = translation (h a))"

text \<open>A store with a parent at address 1, turned by 90 degrees about x, and its child at 2.\<close>

definition nested_store :: heap where
  "nested_store =
     (\<lambda>a. new_CascadedCoords zeros3 eye3)
       (1 := (new_CascadedCoords zeros3 rot_x90)\<lparr>descendants := [2]\<rparr>,
        2 := (new_CascadedCoords (1, 2, 3) eye3)\<lparr>parent := Some 1\<rparr>)"

section \<open>Poses as values\<close>






text \<open>
  \<open>readable n h r\<close>: the world pose of \<open>r\<close> can be read within the recursion limit \<open>n\<close>.
  \<open>parentcoords_ref h a\<close>: the object that \<^verbatim>\<open>parentcoords()\<close> returns for the frame at
  \<open>a\<close>. \<open>only_pose h h'\<close>: the two stores differ at most in rotations and translations of
  frames. \<open>refreshed h h'\<close>: the store \<open>h'\<close> is \<open>h\<close> after reads of world poses, which leave
  every \<open>CLEAN\<close> frame as it is and may have recomputed the cache of a \<open>DIRTY\<close> one and
  marked it \<open>CLEAN\<close>.
\<close>

definition readable :: "nat \<Rightarrow> heap \<Rightarrow> cref \<Rightarrow> bool" where
  "readable n h r =
     (case r of At a \<Rightarrow> cascaded (h a) \<longrightarrow> chain_ok n h a
      | Cache a \<Rightarrow> chain_ok n h a
      | Tmp c \<Rightarrow> True)"

definition parentcoords_ref :: "heap \<Rightarrow> addr \<Rightarrow> cref" where
  "parentcoords_ref h a =
     (case parent (h a) of
        None \<Rightarrow> At worldcoords_obj
      | Some p \<Rightarrow> if cascaded (h p) then Cache p else At p)"


definition refreshed :: "heap \<Rightarrow> heap \<Rightarrow> bool" where
  "refreshed h h' = (same_frames h h' \<and> (\<forall>x. \<not> changed_flag (h x) \<longrightarrow> h' x = h x))"

section \<open>Algebra of the pose operations\<close>

lemma vadd_zeros3: "vadd v zeros3 = v" "vadd zeros3 v = v"
  by (cases v; simp add: zeros3_def)+

lemma matvec_eye3: "matvec eye3 v = v"
  by (cases v) (simp add: eye3_def)

lemma matvec_matmul: "matvec (matmul A B) v = matvec A (matvec B v)"
  by (cases A rule: prod_cases3; cases B; cases v; clarsimp simp: algebra_simps)

lemma matvec_vscale: "matvec A (vscale k v) = vscale k (matvec A v)"
  by (cases A rule: prod_cases3; cases v; clarsimp simp: algebra_simps)

lemma vadd_vscale_neg: "vadd v (vscale (- 1) v) = zeros3" "vadd (vscale (- 1) v) v = zeros3"
  by (cases v; simp add: zeros3_def)+

lemma get_set_rotation:
  "get_rotation (fst (set_rotation h r R)) (snd (set_rotation h r R)) = R"
  "get_translation (fst (set_rotation h r R)) (snd (set_rotation h r R)) = get_translation h r"
  by (cases r; simp)+

lemma get_set_translation:
  "get_translation (fst (set_translation h r t)) (snd (set_translation h r t)) = t"
  "get_rotation (fst (set_translation h r t)) (snd (set_translation h r t)) = get_rotation h r"
  by (cases r; simp)+

lemma get_rotation_set_translation:
  "get_rotation (fst (set_translation h r t)) c = get_rotation h c"
  by (cases r; cases c; simp)

lemma and_then_simps [simp]:
  "and_then (Inl e, h) f = (Inl e, h)"
  "and_then (Inr x, h) f = f x h"
  by (simp_all add: and_then_def)

lemma orthonormal_rot_z90: "orthonormal rot_z90"
  by (simp add: orthonormal_def rot_z90_def eye3_def)

lemma orthonormal_rot_x90: "orthonormal rot_x90"
  by (simp add: orthonormal_def rot_x90_def eye3_def)

lemma orthonormal_eye3: "orthonormal eye3"
  by (simp add: orthonormal_def eye3_def)

lemma clean_root_eq:
  "clean_root = (\<lambda>a. new_CascadedCoords zeros3 eye3)
     (1 := (new_CascadedCoords zeros3 eye3)\<lparr>changed_flag := False\<rparr>)"
  by (simp add: clean_root_def worldcoords_def new_CascadedCoords_def eval_nat_numeral fun_eq_iff)

subsection \<open>Which exceptions the cached world pose can raise\<close>

lemma lower_local [simp]: "lower ''local'' = ''local''"
  by (simp add: lower_def lower_char_def)







subsection \<open>What an operation leaves behind when it raises\<close>









lemma make_temp_shape:
  "make_temp M h self c pos cv = Inl e \<Longrightarrow> raised e \<Longrightarrow> cv"
  by (auto simp: make_temp_def raised_def Let_def split: if_splits sum.splits rot_arg.splits pos_arg.splits)


lemma raised_simps [simp]:
  "raised ValueError" "raised TypeError" "raised RuntimeError"
  "\<not> raised RecursionError" "\<not> raised OutsideModel"
  by (simp_all add: raised_def)















subsection \<open>The cached world pose\<close>

lemma locals_upd [simp]:
  "locals (c\<lparr>world_rotation := R\<rparr>) = locals c"
  "locals (c\<lparr>world_translation := t\<rparr>) = locals c"
  "locals (c\<lparr>changed_flag := b\<rparr>) = locals c"
  by (simp_all add: locals_def)

lemma same_frames_refl [simp]: "same_frames h h"
  by (simp add: same_frames_def)

lemma same_frames_trans: "same_frames h h1 \<Longrightarrow> same_frames h1 h2 \<Longrightarrow> same_frames h h2"
  by (simp add: same_frames_def)

lemma same_frames_upd: "same_frames h h1 \<Longrightarrow> locals c = locals (h1 a) \<Longrightarrow> same_frames h (h1(a := c))"
  by (simp add: same_frames_def)

lemma same_framesD:
  "same_frames h h' \<Longrightarrow> rotation (h' x) = rotation (h x) \<and> translation (h' x) = translation (h x)
      \<and> name (h' x) = name (h x) \<and> parent (h' x) = parent (h x) \<and> cascaded (h' x) = cascaded (h x)
      \<and> descendants (h' x) = descendants (h x)"
  by (simp add: same_frames_def locals_def)

lemma transform_coords_Cache:
  "transform_coords h c1 c2 (OutCoords (Cache a)) =
     (Inr (Cache a), h(a := (h a)\<lparr>world_translation :=
          vadd (get_translation h c1) (matvec (get_rotation h c1) (get_translation h c2)),
        world_rotation := matmul (get_rotation h c1) (get_rotation h c2)\<rparr>))"
  by (cases c1; cases c2; simp add: transform_coords_def)

lemma update_Suc_clean: "\<not> f \<Longrightarrow> \<not> changed_flag (h a) \<Longrightarrow> update (Suc n) h a f = (Inr (), h)"
  by simp

lemma update_Suc_root:
  "f \<or> changed_flag (h a) \<Longrightarrow> parent (h a) = None \<Longrightarrow>
   update (Suc n) h a f = (Inr (), h(a := (h a)\<lparr>world_rotation := rotation (h a),
        world_translation := translation (h a), changed_flag := False\<rparr>))"
  by auto

lemma update_Suc_plain_parent:
  "f \<or> changed_flag (h a) \<Longrightarrow> parent (h a) = Some p \<Longrightarrow> \<not> cascaded (h p) \<Longrightarrow>
   update (Suc n) h a f = (Inr (), h(a := (h a)\<lparr>world_translation :=
          vadd (translation (h p)) (matvec (rotation (h p)) (translation (h a))),
        world_rotation := matmul (rotation (h p)) (rotation (h a)), changed_flag := False\<rparr>))"
  by (auto simp: transform_coords_Cache)

lemma update_Suc_casc_parent:
  "f \<or> changed_flag (h a) \<Longrightarrow> parent (h a) = Some p \<Longrightarrow> cascaded (h p) \<Longrightarrow>
   update (Suc n) h a f =
     (case update n h p False of
        (Inl e, h1) \<Rightarrow> (Inl e, h1)
      | (Inr u, h1) \<Rightarrow> (Inr (), h1(a := (h1 a)\<lparr>world_translation :=
          vadd (world_translation (h1 p)) (matvec (world_rotation (h1 p)) (translation (h1 a))),
        world_rotation := matmul (world_rotation (h1 p)) (rotation (h1 a)), changed_flag := False\<rparr>)))"
  by (auto simp: transform_coords_Cache split: prod.splits sum.splits)

lemma update_same_frames: "update n h a f = (r, h') \<Longrightarrow> same_frames h h'"
proof (induction n arbitrary: h a f r h')
  case 0
  then show ?case by simp
next
  case (Suc n)
  show ?case
  proof (cases "\<not> f \<and> \<not> changed_flag (h a)")
    case True
    with Suc.prems show ?thesis by simp
  next
    case False
    then have d: "f \<or> changed_flag (h a)" by auto
    show ?thesis
    proof (cases "parent (h a)")
      case None
      from Suc.prems d None show ?thesis
        by (auto simp: update_Suc_root simp del: update.simps intro!: same_frames_upd)
    next
      case (Some p)
      show ?thesis
      proof (cases "cascaded (h p)")
        case False
        from Suc.prems d Some False show ?thesis
          by (auto simp: update_Suc_plain_parent simp del: update.simps intro!: same_frames_upd)
      next
        case True
        obtain r1 h1 where u: "update n h p False = (r1, h1)" by (cases "update n h p False")
        from Suc.IH [OF u] have sf: "same_frames h h1" .
        from Suc.prems d Some True u sf show ?thesis
          by (cases r1) (auto simp: update_Suc_casc_parent simp del: update.simps
              intro!: same_frames_upd)
      qed
    qed
  qed
qed

subsection \<open>The recursion of changed\<close>

lemma dirtied_refl [simp]: "dirtied h h"
  by (simp add: dirtied_def)

lemma dirtied_trans: "dirtied h h1 \<Longrightarrow> dirtied h1 h2 \<Longrightarrow> dirtied h h2"
  by (simp add: dirtied_def)

lemma dirtied_flag: "dirtied h (h(a := (h a)\<lparr>changed_flag := True\<rparr>))"
  by (simp add: dirtied_def unflag_def)

lemma dirtied_descendants: "dirtied h h' \<Longrightarrow> descendants (h' x) = descendants (h x)"
proof -
  assume "dirtied h h'"
  then have "unflag (h' x) = unflag (h x)" by (simp add: dirtied_def)
  then have "descendants (unflag (h' x)) = descendants (unflag (h x))" by simp
  then show ?thesis by (simp add: unflag_def)
qed

lemma dirtied_same_frames: "dirtied h h' \<Longrightarrow> same_frames h h'"
proof -
  assume d: "dirtied h h'"
  { fix x
    from d have "unflag (h' x) = unflag (h x)" by (simp add: dirtied_def)
    then have "locals (unflag (h' x)) = locals (unflag (h x))" by simp
    then have "locals (h' x) = locals (h x)" by (simp add: unflag_def) }
  then show ?thesis by (simp add: same_frames_def)
qed

lemma subtree_avoids_dirtied:
  "dirtied h h' \<Longrightarrow> subtree_avoids n h' a ps = subtree_avoids n h a ps"
proof (induction n arbitrary: a)
  case 0
  show ?case by simp
next
  case (Suc n)
  then show ?case by (simp add: dirtied_descendants)
qed

lemma dirtied_avoid: "dirtied h h' \<Longrightarrow> changed_flag (h' p) = changed_flag (h p) \<Longrightarrow> h' p = h p"
proof -
  assume d: "dirtied h h'" and f: "changed_flag (h' p) = changed_flag (h p)"
  from d have "unflag (h' p) = unflag (h p)" by (simp add: dirtied_def)
  then have "(unflag (h' p))\<lparr>changed_flag := changed_flag (h p)\<rparr> = (unflag (h p))\<lparr>changed_flag := changed_flag (h p)\<rparr>"
    by simp
  then have "(h' p)\<lparr>changed_flag := changed_flag (h' p)\<rparr> = h p"
    using f by (simp add: unflag_def)
  then show ?thesis by simp
qed

lemma fold_changed_avoids:
  assumes IH: "\<And>m h a. subtree_avoids n h a ps \<Longrightarrow> n \<le> m \<Longrightarrow>
      \<exists>h'. changed m h a = (Inr (), h') \<and> dirtied h h' \<and> (\<forall>p\<in>set ps. h' p = h p)
        \<and> changed_flag (h' a)"
    and nm: "n \<le> m"
  shows "list_all (\<lambda>c. subtree_avoids n h0 c ps) ys \<Longrightarrow> dirtied h0 hx \<Longrightarrow>
     \<forall>p\<in>set ps. hx p = h0 p \<Longrightarrow>
     \<exists>h'. fold (\<lambda>c (r, h'). case r of Inl e \<Rightarrow> (Inl e, h')
            | Inr u \<Rightarrow> (if cascaded (h' c) then changed m h' c else (Inr (), h'))) ys (Inr (), hx)
          = (Inr (), h') \<and> dirtied h0 h' \<and> (\<forall>p\<in>set ps. h' p = h0 p)"
proof (induction ys arbitrary: hx)
  case Nil
  then show ?case by simp
next
  case (Cons c ys)
  show ?case
  proof (cases "cascaded (hx c)")
    case False
    with Cons.IH [of hx] Cons.prems show ?thesis by simp
  next
    case True
    from Cons.prems have "subtree_avoids n h0 c ps" by simp
    with Cons.prems(2) have "subtree_avoids n hx c ps" by (simp add: subtree_avoids_dirtied)
    from IH [OF this nm] obtain h1 where
      h1: "changed m hx c = (Inr (), h1)" "dirtied hx h1" "\<forall>p\<in>set ps. h1 p = hx p" by blast
    from h1 Cons.prems have d: "dirtied h0 h1" and p: "\<forall>p\<in>set ps. h1 p = h0 p"
      by (auto intro: dirtied_trans)
    from Cons.prems have "list_all (\<lambda>c. subtree_avoids n h0 c ps) ys" by simp
    from Cons.IH [OF this d p] True h1 show ?thesis by simp
  qed
qed

lemma changed_avoids:
  "subtree_avoids n h a ps \<Longrightarrow> n \<le> m \<Longrightarrow>
     \<exists>h'. changed m h a = (Inr (), h') \<and> dirtied h h' \<and> (\<forall>p\<in>set ps. h' p = h p)
       \<and> changed_flag (h' a)"
proof (induction n arbitrary: m h a)
  case 0
  then show ?case by simp
next
  case (Suc n)
  then obtain m' where m: "m = Suc m'" and nm: "n \<le> m'" by (cases m) auto
  show ?case
  proof (cases "changed_flag (h a)")
    case True
    with m show ?thesis by simp
  next
    case False
    let ?h0 = "h(a := (h a)\<lparr>changed_flag := True\<rparr>)"
    have d0: "dirtied h ?h0" by (rule dirtied_flag)
    from Suc.prems have ap: "a \<notin> set ps"
      and la: "list_all (\<lambda>c. subtree_avoids n h c ps) (descendants (h a))" by simp_all
    from la d0 have la0: "list_all (\<lambda>c. subtree_avoids n ?h0 c ps) (descendants (h a))"
      by (simp add: subtree_avoids_dirtied)
    have p0: "\<forall>p\<in>set ps. ?h0 p = ?h0 p" by simp
    from fold_changed_avoids [OF Suc.IH nm la0 dirtied_refl p0] obtain h' where
      h': "fold (\<lambda>c (r, h'). case r of Inl e \<Rightarrow> (Inl e, h')
            | Inr u \<Rightarrow> (if cascaded (h' c) then changed m' h' c else (Inr (), h')))
            (descendants (h a)) (Inr (), ?h0) = (Inr (), h')"
      "dirtied ?h0 h'" "\<forall>p\<in>set ps. h' p = ?h0 p" by blast
    from h'(3) ap have "\<forall>p\<in>set ps. h' p = h p" by auto
    moreover from d0 h'(2) have "dirtied h h'" by (rule dirtied_trans)
    moreover from h'(2) have "changed_flag (h' a)" by (simp add: dirtied_def)
    ultimately show ?thesis using False m h'(1) by simp
  qed
qed

subsection \<open>The recursion of update\<close>


lemma update_total:
  "chain_ok n h a \<Longrightarrow> n \<le> m \<Longrightarrow>
     \<exists>h'. update m h a f = (Inr (), h') \<and> same_frames h h' \<and> \<not> changed_flag (h' a)"
proof (induction n arbitrary: m h a f)
  case 0
  then show ?case by simp
next
  case (Suc n)
  then obtain m' where m: "m = Suc m'" and nm: "n \<le> m'" by (cases m) auto
  show ?case
  proof (cases "\<not> f \<and> \<not> changed_flag (h a)")
    case True
    with m show ?thesis by simp
  next
    case False
    then have d: "f \<or> changed_flag (h a)" by auto
    show ?thesis
    proof (cases "parent (h a)")
      case None
      with d m show ?thesis
        by (auto simp: update_Suc_root simp del: update.simps intro!: same_frames_upd)
    next
      case (Some p)
      show ?thesis
      proof (cases "cascaded (h p)")
        case False
        with d m Some show ?thesis
          by (auto simp: update_Suc_plain_parent simp del: update.simps intro!: same_frames_upd)
      next
        case True
        from Suc.prems Some have "chain_ok n h p" by simp
        from Suc.IH [OF this nm, of False] obtain h1 where
          "update m' h p False = (Inr (), h1)" "same_frames h h1" by blast
        with d m Some True show ?thesis
          by (auto simp: update_Suc_casc_parent simp del: update.simps intro!: same_frames_upd)
      qed
    qed
  qed
qed

lemma subtree_avoids_mono:
  "(\<And>x. set (descendants (h' x)) \<subseteq> set (descendants (h x))) \<Longrightarrow>
   subtree_avoids n h a ps \<Longrightarrow> subtree_avoids n h' a ps"
proof (induction n arbitrary: a)
  case 0
  then show ?case by simp
next
  case (Suc n)
  from Suc.prems(2) have a: "a \<notin> set ps" and
    l: "\<forall>c\<in>set (descendants (h a)). subtree_avoids n h c ps" by (simp_all add: list_all_iff)
  from Suc.prems(1) [of a] l have "\<forall>c\<in>set (descendants (h' a)). subtree_avoids n h c ps" by blast
  with Suc.IH [OF Suc.prems(1)] have "\<forall>c\<in>set (descendants (h' a)). subtree_avoids n h' c ps" by blast
  with a show ?case by (simp add: list_all_iff)
qed

lemma subtree_avoids_pos: "subtree_avoids n h a ps \<Longrightarrow> 0 < n"
  by (cases n) simp_all

lemma chain_ok_pos: "chain_ok n h a \<Longrightarrow> 0 < n"
  by (cases n) simp_all

lemma worldcoords_total:
  "cascaded (h a) \<Longrightarrow> chain_ok n h a \<Longrightarrow> n \<le> m \<Longrightarrow>
     \<exists>h'. worldcoords m h (At a) = (Inr (Cache a), h') \<and> same_frames h h' \<and> \<not> changed_flag (h' a)"
proof -
  assume c: "cascaded (h a)" and k: "chain_ok n h a" and nm: "n \<le> m"
  from update_total [OF k nm, of False] obtain h' where
    "update m h a False = (Inr (), h')" "same_frames h h'" "\<not> changed_flag (h' a)" by blast
  with c show ?thesis by (simp add: worldcoords_def)
qed

subsection \<open>Steps of assoc and dissoc\<close>

lemma copy_coords_Cache:
  "copy_coords n h (Cache a) =
     (Inr (Tmp (new_Coordinates (world_translation (h a)) (world_rotation (h a)))), h)"
  by (simp add: copy_coords_def worldpos_def worldrot_def is_cascaded_def)

lemma newcoords_cascaded_local:
  "cascaded (h a) \<Longrightarrow>
   newcoords M n h (At a) (FromCoords (Tmp c)) False (RelStr ''local'') =
     and_then (changed n (h(a := (h a)\<lparr>rotation := rotation c, translation := translation c\<rparr>)) a)
       (\<lambda>u h3. (Inr (At a), h3))"
  by (simp add: newcoords_def CascadedCoords_newcoords_def Coordinates_newcoords_def
      newcoords_commit_def lower_def lower_char_def split: option.splits)

lemma worldrot_dirty_root:
  "cascaded (h a) \<Longrightarrow> changed_flag (h a) \<Longrightarrow> parent (h a) = None \<Longrightarrow> 0 < n \<Longrightarrow>
   fst (worldrot n h (At a)) = Inr (rotation (h a)) \<and> fst (worldpos n h (At a)) = Inr (translation (h a))"
  by (cases n) (simp_all add: worldrot_def worldpos_def is_cascaded_def worldcoords_def)

lemma dissoc_result:
  assumes c: "cascaded (h C)" and reg: "C \<in> set (descendants (h P))"
    and ch: "chain_ok n h C" and st: "subtree_avoids n h C []"
  shows "\<exists>h1 h'. worldcoords n h (At C) = (Inr (Cache C), h1)
     \<and> dissoc M n h P C = (Inr (), h')
     \<and> parent (h' C) = None
     \<and> rotation (h' C) = world_rotation (h1 C)
     \<and> translation (h' C) = world_translation (h1 C)
     \<and> changed_flag (h' C)
     \<and> fst (worldrot n h' (At C)) = Inr (world_rotation (h1 C))
     \<and> fst (worldpos n h' (At C)) = Inr (world_translation (h1 C))"
proof -
  from worldcoords_total [OF c ch le_refl] obtain h1 where
    w: "worldcoords n h (At C) = (Inr (Cache C), h1)" and sf: "same_frames h h1" by blast
  define c0 where "c0 = new_Coordinates (world_translation (h1 C)) (world_rotation (h1 C))"
  define h4 where "h4 = (h1(P := (h1 P)\<lparr>descendants := remove1 C (descendants (h1 P))\<rparr>))
      (C := ((h1(P := (h1 P)\<lparr>descendants := remove1 C (descendants (h1 P))\<rparr>)) C)\<lparr>parent := None\<rparr>)"
  define h6 where "h6 = h4(C := (h4 C)\<lparr>rotation := rotation c0, translation := translation c0\<rparr>)"
  have c4: "cascaded (h4 C)" using c same_framesD [OF sf, of C] by (auto simp: h4_def)
  have sub: "\<And>x. set (descendants (h6 x)) \<subseteq> set (descendants (h x))"
    using same_framesD [OF sf] set_remove1_subset [of C]
    by (auto simp: h6_def h4_def split: if_splits)
  from subtree_avoids_mono [OF sub st] have "subtree_avoids n h6 C []" .
  from changed_avoids [OF this le_refl] obtain h' where
    cg: "changed n h6 C = (Inr (), h')" and d: "dirtied h6 h'" and f: "changed_flag (h' C)"
    by blast
  from dirtied_same_frames [OF d] have s6: "same_frames h6 h'" .
  have nc: "newcoords M n h4 (At C) (FromCoords (Tmp c0)) False (RelStr ''local'') = (Inr (At C), h')"
    using newcoords_cascaded_local [of h4 C M n c0] c4 cg by (simp add: h6_def)
  have "dissoc M n h P C =
      and_then (newcoords M n h4 (At C) (FromCoords (Tmp c0)) False (RelStr ''local''))
        (\<lambda>c1 h5. (Inr (), h5))"
    by (simp only: dissoc_def reg if_True w and_then_simps copy_coords_Cache Let_def h4_def c0_def)
  with nc have dis: "dissoc M n h P C = (Inr (), h')" by simp
  have p: "parent (h' C) = None" and r: "rotation (h' C) = world_rotation (h1 C)"
    and t: "translation (h' C) = world_translation (h1 C)" and cc: "cascaded (h' C)"
    using same_framesD [OF s6, of C] c4
    by (simp_all add: h6_def h4_def c0_def new_Coordinates_def)
  from worldrot_dirty_root [of h' C n] cc f p chain_ok_pos [OF ch] r t w dis show ?thesis
    by simp
qed

lemma nested_store_shape:
  "cascaded (nested_store 2)" "cascaded (nested_store 1)"
  "2 \<in> set (descendants (nested_store 1))"
  "chain_ok 3 nested_store 2" "chain_ok 3 nested_store 1"
  "subtree_avoids 3 nested_store 2 []"
  by (simp_all add: nested_store_def new_CascadedCoords_def eval_nat_numeral)

subsection \<open>The receiver of transform keeps its pose\<close>

lemma kept_refl [simp]: "kept a h h"
  by (simp add: kept_def)















lemma transform_coords_result:
  "\<exists>h' r'. transform_coords h A B (OutCoords out) = (Inr r', h')
        \<and> (case out of Tmp c \<Rightarrow> (\<exists>c'. r' = Tmp c') | _ \<Rightarrow> r' = out)
        \<and> get_translation h' r' =
            vadd (get_translation h A) (matvec (get_rotation h A) (get_translation h B))
        \<and> get_rotation h' r' = matmul (get_rotation h A) (get_rotation h B)
        \<and> (\<forall>x. descendants (h' x) = descendants (h x) \<and> cascaded (h' x) = cascaded (h x))"
  by (cases out; cases A; cases B; simp add: transform_coords_def)

lemma dirtied_get:
  "dirtied h h' \<Longrightarrow> get_rotation h' r = get_rotation h r \<and> get_translation h' r = get_translation h r"
proof -
  assume d: "dirtied h h'"
  { fix x
    from d have "unflag (h' x) = unflag (h x)" by (simp add: dirtied_def)
    then have "rotation (unflag (h' x)) = rotation (unflag (h x))"
      "translation (unflag (h' x)) = translation (unflag (h x))"
      "world_rotation (unflag (h' x)) = world_rotation (unflag (h x))"
      "world_translation (unflag (h' x)) = world_translation (unflag (h x))" by simp_all
    then have "rotation (h' x) = rotation (h x) \<and> translation (h' x) = translation (h x)
      \<and> world_rotation (h' x) = world_rotation (h x) \<and> world_translation (h' x) = world_translation (h x)"
      by (simp add: unflag_def) }
  then show ?thesis by (cases r) simp_all
qed

lemma newcoords_same_result:
  assumes "case r of At b \<Rightarrow> cascaded (h b) \<longrightarrow> subtree_avoids n h b [] | _ \<Rightarrow> True"
  shows "\<exists>h'. newcoords M n h r (FromArrays Same Same) False (RelStr ''local'') = (Inr r, h')
     \<and> get_rotation h' r = get_rotation h r \<and> get_translation h' r = get_translation h r"
proof -
  have l: "lower ''local'' \<noteq> ''world''" "lower ''local'' = ''local''"
    by (simp_all add: lower_def lower_char_def)
  have c: "\<And>h r. Coordinates_newcoords M h r (FromArrays Same Same) False RelNone = (Inr r, h)"
    "\<And>h r. Coordinates_newcoords M h r (FromArrays Same Same) False (RelStr ''local'') = (Inr r, h)"
    by (simp_all add: Coordinates_newcoords_def newcoords_commit_def l)
  show ?thesis
  proof (cases "is_cascaded h r")
    case False
    then show ?thesis
      by (auto simp: newcoords_def is_cascaded_def c split: cref.splits)
  next
    case True
    then obtain b where b: "r = At b" "cascaded (h b)"
      by (auto simp: is_cascaded_def split: cref.splits)
    with assms have "subtree_avoids n h b []" by simp
    from changed_avoids [OF this le_refl] obtain h' where
      h': "changed n h b = (Inr (), h')" "dirtied h h'" by blast
    from b have "newcoords M n h r (FromArrays Same Same) False (RelStr ''local'') =
        and_then (changed n h b) (\<lambda>u h3. (Inr (At b), h3))"
      by (simp add: newcoords_def CascadedCoords_newcoords_def l c split: option.splits)
    with h' b dirtied_get [OF h'(2), of r] show ?thesis by simp
  qed
qed

lemma newcoords_after_transform_coords:
  assumes ok: "case out of At b \<Rightarrow> cascaded (h b) \<longrightarrow> subtree_avoids n h b [] | _ \<Rightarrow> True"
  shows "\<exists>r' h'. and_then (transform_coords h A B (OutCoords out))
            (\<lambda>out5 h10. newcoords M n h10 out5 (FromArrays Same Same) False (RelStr ''local''))
          = (Inr r', h')
     \<and> (case out of Tmp c \<Rightarrow> (\<exists>c'. r' = Tmp c') | _ \<Rightarrow> r' = out)
     \<and> get_rotation h' r' = matmul (get_rotation h A) (get_rotation h B)
     \<and> get_translation h' r' =
         vadd (get_translation h A) (matvec (get_rotation h A) (get_translation h B))"
proof -
  from transform_coords_result [of h A B out] obtain h1 r1 where
    t: "transform_coords h A B (OutCoords out) = (Inr r1, h1)"
    and k: "case out of Tmp c \<Rightarrow> (\<exists>c'. r1 = Tmp c') | _ \<Rightarrow> r1 = out"
    and p: "get_translation h1 r1 =
            vadd (get_translation h A) (matvec (get_rotation h A) (get_translation h B))"
       "get_rotation h1 r1 = matmul (get_rotation h A) (get_rotation h B)"
    and s: "\<forall>x. descendants (h1 x) = descendants (h x) \<and> cascaded (h1 x) = cascaded (h x)"
    by blast
  have "case r1 of At b \<Rightarrow> cascaded (h1 b) \<longrightarrow> subtree_avoids n h1 b [] | _ \<Rightarrow> True"
  proof (cases r1)
    case (At b)
    with k have o: "out = At b" by (cases out) auto
    { assume "cascaded (h1 b)"
      with s ok o have "subtree_avoids n h b []" by simp
      moreover from s have "\<And>x. set (descendants (h1 x)) \<subseteq> set (descendants (h x))" by simp
      ultimately have "subtree_avoids n h1 b []" by (rule subtree_avoids_mono [rotated]) }
    with At show ?thesis by simp
  qed simp_all
  from newcoords_same_result [OF this, of M] t k p show ?thesis by auto
qed


lemma transform_parent_result:
  assumes ok: "case out of At b \<Rightarrow> cascaded (h b) \<longrightarrow> subtree_avoids n h b [] | _ \<Rightarrow> True"
  shows "\<exists>r' h'. transform M n h (At a) c (WStr ''parent'') (OutCoords out) = (Inr r', h')
     \<and> (case out of Tmp c \<Rightarrow> (\<exists>c'. r' = Tmp c') | _ \<Rightarrow> r' = out)
     \<and> get_rotation h' r' = matmul (get_rotation h c) (rotation (h a))
     \<and> get_translation h' r' =
         vadd (get_translation h c) (matvec (get_rotation h c) (translation (h a)))"
proof (cases "cascaded (h a)")
  case False
  with transform_coords_result [of h c "At a" out] show ?thesis
    by (auto simp: transform_def Coordinates_transform_def wrt_same_def)
next
  case True
  with newcoords_after_transform_coords [OF ok, of c "At a" M] show ?thesis
    by (simp add: transform_def CascadedCoords_transform_def)
qed


lemma nested_store_subtree: "subtree_avoids 3 nested_store 1 []"
  by (simp add: nested_store_def new_CascadedCoords_def eval_nat_numeral)

subsection \<open>Poses written by transform_coords\<close>









lemma chain_ok_mono: "chain_ok n h a \<Longrightarrow> n \<le> m \<Longrightarrow> chain_ok m h a"
proof (induction n arbitrary: m a)
  case 0
  then show ?case by simp
next
  case (Suc n)
  then obtain m' where m: "m = Suc m'" "n \<le> m'" by (cases m) auto
  with Suc show ?case by (auto split: option.splits)
qed

lemma update_clean_fixed:
  "update n h a False = (r, h') \<Longrightarrow> \<not> changed_flag (h x) \<Longrightarrow> h' x = h x"
proof (induction n arbitrary: h a r h')
  case 0
  then show ?case by simp
next
  case (Suc n)
  show ?case
  proof (cases "changed_flag (h a)")
    case False
    with Suc.prems show ?thesis by simp
  next
    case d: True
    with Suc.prems(2) have xa: "x \<noteq> a" by auto
    show ?thesis
    proof (cases "parent (h a)")
      case None
      from Suc.prems d None xa show ?thesis
        by (auto simp: update_Suc_root simp del: update.simps)
    next
      case (Some p)
      show ?thesis
      proof (cases "cascaded (h p)")
        case False
        from Suc.prems d Some False xa show ?thesis
          by (auto simp: update_Suc_plain_parent simp del: update.simps)
      next
        case True
        obtain r1 h1 where u: "update n h p False = (r1, h1)" by (cases "update n h p False")
        from Suc.IH [OF u Suc.prems(2)] have sf: "h1 x = h x" .
        from Suc.prems d Some True u sf xa show ?thesis
          by (cases r1) (auto simp: update_Suc_casc_parent simp del: update.simps)
      qed
    qed
  qed
qed

lemma update_refreshed: "update n h a False = (r, h') \<Longrightarrow> refreshed h h'"
  using update_same_frames [of n h a False r h'] update_clean_fixed [of n h a r h']
  by (simp add: refreshed_def)

lemma refreshed_refl [simp]: "refreshed h h"
  by (simp add: refreshed_def)

lemma refreshedD: "refreshed h h' \<Longrightarrow> same_frames h h'"
  "refreshed h h' \<Longrightarrow> \<not> changed_flag (h x) \<Longrightarrow> h' x = h x"
  by (simp_all add: refreshed_def)

lemma refreshed_trans: "refreshed h h1 \<Longrightarrow> refreshed h1 h2 \<Longrightarrow> refreshed h h2"
  by (auto simp: refreshed_def intro: same_frames_trans)

lemma worldcoords_readable:
  assumes "readable n h r"
  shows "\<exists>h'. worldcoords n h r =
        (Inr (case r of At a \<Rightarrow> if cascaded (h a) then Cache a else At a | _ \<Rightarrow> r), h')
     \<and> refreshed h h'
     \<and> (\<forall>a. r = At a \<and> cascaded (h a) \<longrightarrow> \<not> changed_flag (h' a))"
proof (cases r)
  case (At a)
  show ?thesis
  proof (cases "cascaded (h a)")
    case True
    with assms At have "chain_ok n h a" by (simp add: readable_def)
    from update_total [OF this le_refl, of False] obtain h' where
      u: "update n h a False = (Inr (), h')" "\<not> changed_flag (h' a)" by blast
    from update_refreshed [OF u(1)] u At True show ?thesis by (simp add: worldcoords_def)
  next
    case False
    with At show ?thesis by (simp add: worldcoords_def)
  qed
next
  case (Cache a)
  with assms have "chain_ok n h a" by (simp add: readable_def)
  from update_total [OF this le_refl, of False] obtain h' where
    u: "update n h a False = (Inr (), h')" by blast
  from update_refreshed [OF u] u Cache show ?thesis by (simp add: worldcoords_def)
next
  case (Tmp c)
  then show ?thesis by (simp add: worldcoords_def)
qed

lemma parentcoords_total:
  assumes "chain_ok n h a"
  shows "\<exists>h1. parentcoords n h a = (Inr (parentcoords_ref h a), h1) \<and> refreshed h h1
    \<and> (\<forall>p. parent (h a) = Some p \<and> cascaded (h p) \<longrightarrow> \<not> changed_flag (h1 p))"
proof (cases "parent (h a)")
  case None
  then show ?thesis by (simp add: parentcoords_def parentcoords_ref_def)
next
  case (Some p)
  from assms Some obtain k where k: "n = Suc k" "chain_ok k h p" by (cases n) auto
  from chain_ok_mono [OF k(2), of n] k(1) have "chain_ok n h p" by simp
  then have "readable n h (At p)" by (simp add: readable_def)
  from worldcoords_readable [OF this] Some show ?thesis
    by (auto simp: parentcoords_def parentcoords_ref_def)
qed


subsection \<open>What transform writes into out\<close>









lemma subtree_avoids_descendants:
  "(\<And>x. descendants (h' x) = descendants (h x)) \<Longrightarrow>
   subtree_avoids n h a ps \<Longrightarrow> subtree_avoids n h' a ps"
  by (rule subtree_avoids_mono) simp_all








subsection \<open>What rotate leaves in the frame\<close>

lemma lower_strings [simp]:
  "lower ''local'' \<noteq> ''world''" "lower ''local'' \<noteq> ''parent''"
  by (simp_all add: lower_def lower_char_def)

lemma newcoords_rotation_result:
  assumes "cascaded (h a) \<longrightarrow> subtree_avoids n h a []"
  shows "\<exists>h'. newcoords M n h (At a) (FromArrays (Arr (RotMatrix R)) Same) False (RelStr ''local'')
        = (Inr (At a), h')
     \<and> rotation (h' a) = R \<and> translation (h' a) = translation (h a)"
proof (cases "cascaded (h a)")
  case False
  then show ?thesis
    by (simp add: newcoords_def Coordinates_newcoords_def newcoords_commit_def)
next
  case True
  let ?h1 = "h(a := (h a)\<lparr>rotation := R\<rparr>)"
  have c: "Coordinates_newcoords M h (At a) (FromArrays (Arr (RotMatrix R)) Same) False RelNone
      = (Inr (At a), ?h1)"
    by (simp add: Coordinates_newcoords_def newcoords_commit_def)
  from assms True have "subtree_avoids n h a []" by simp
  then have "subtree_avoids n ?h1 a []"
    by (rule subtree_avoids_descendants [rotated]) simp
  from changed_avoids [OF this le_refl] obtain h' where
    h': "changed n ?h1 a = (Inr (), h')" "dirtied ?h1 h'" by blast
  from dirtied_get [OF h'(2), where r = "At a"] have
    "rotation (h' a) = R" "translation (h' a) = translation (h a)" by simp_all
  with True c h'(1) show ?thesis
    by (simp add: newcoords_def CascadedCoords_newcoords_def split: option.splits)
qed

lemma newcoords_same_At:
  assumes "cascaded (h a) \<longrightarrow> subtree_avoids n h a []"
  shows "\<exists>h'. newcoords M n h (At a) (FromArrays Same Same) False (RelStr ''local'') = (Inr (At a), h')
     \<and> rotation (h' a) = rotation (h a) \<and> translation (h' a) = translation (h a)"
  using newcoords_same_result [where r = "At a" and h = h and n = n and M = M] assms by simp

lemma set_rotation_then_newcoords:
  assumes "cascaded (h a) \<longrightarrow> subtree_avoids n h a []"
  shows "\<exists>h'. newcoords M n (h(a := (h a)\<lparr>rotation := R\<rparr>)) (At a) (FromArrays Same Same) False
          (RelStr ''local'') = (Inr (At a), h')
     \<and> rotation (h' a) = R \<and> translation (h' a) = translation (h a)"
proof -
  let ?h1 = "h(a := (h a)\<lparr>rotation := R\<rparr>)"
  have "cascaded (?h1 a) \<longrightarrow> subtree_avoids n ?h1 a []"
  proof
    assume "cascaded (?h1 a)"
    with assms have "subtree_avoids n h a []" by simp
    then show "subtree_avoids n ?h1 a []"
      by (rule subtree_avoids_descendants [rotated]) simp
  qed
  with newcoords_same_At [of ?h1 a n M] show ?thesis by simp
qed

lemma rotate_local_result:
  assumes st: "cascaded (h a) \<longrightarrow> subtree_avoids n h a []"
    and ax: "axis \<noteq> AxisNone"
  shows "\<exists>h'. rotate M n h (At a) (Angle th) axis (WStr ''local'') sk = (Inr (At a), h')
     \<and> rotation (h' a) = matmul (rotation (h a)) (rotation_matrix M th axis sk)
     \<and> translation (h' a) = translation (h a)"
proof (cases "cascaded (h a)")
  case True
  from newcoords_rotation_result [OF st, of M "matmul (rotation (h a)) (rotation_matrix M th axis sk)"]
    set_rotation_then_newcoords [OF st, of M "matmul (rotation (h a)) (rotation_matrix M th axis sk)"]
    True ax
  show ?thesis
    by (cases axis)
       (auto simp: rotate_def CascadedCoords_rotate_def CascadedCoords_rotate_with_matrix_def
          rotate_matrix_def)
next
  case False
  from newcoords_rotation_result [OF st, of M "matmul (rotation (h a)) (rotation_matrix M th axis sk)"]
    set_rotation_then_newcoords [OF st, of M "matmul (rotation (h a)) (rotation_matrix M th axis sk)"]
  obtain h1 h2 where
    n1: "newcoords M n h (At a) (FromArrays (Arr (RotMatrix (matmul (rotation (h a))
           (rotation_matrix M th axis sk)))) Same) False (RelStr ''local'') = (Inr (At a), h1)"
      "rotation (h1 a) = matmul (rotation (h a)) (rotation_matrix M th axis sk)"
      "translation (h1 a) = translation (h a)"
    and n2: "newcoords M n (h(a := (h a)\<lparr>rotation := matmul (rotation (h a))
           (rotation_matrix M th axis sk)\<rparr>)) (At a) (FromArrays Same Same) False
          (RelStr ''local'') = (Inr (At a), h2)"
      "rotation (h2 a) = matmul (rotation (h a)) (rotation_matrix M th axis sk)"
      "translation (h2 a) = translation (h a)"
    by blast
  from False have c1: "\<not> cascaded (h1 a)"
    using n1(1) by (auto simp: newcoords_def Coordinates_newcoords_def newcoords_commit_def)
  from False n1 have e1: "h1 = h(a := (h a)\<lparr>rotation := matmul (rotation (h a))
           (rotation_matrix M th axis sk)\<rparr>)"
    by (auto simp: newcoords_def Coordinates_newcoords_def newcoords_commit_def)
  show ?thesis
  proof (cases axis)
    case (AxisToken s)
    with False n2 show ?thesis
      by (simp add: rotate_def Coordinates_rotate_def rotate_matrix_def)
  next
    case (AxisArray v)
    with False n1(1) n2 e1 show ?thesis
      by (simp add: rotate_def Coordinates_rotate_def Coordinates_rotate_with_matrix_def)
  next
    case AxisNone
    with ax show ?thesis by simp
  qed
qed


lemma rotate_plain_world_result:
  assumes pl: "\<not> cascaded (h a)" and ax: "axis \<noteq> AxisNone"
    and w: "wrt = WStr ''parent'' \<or> wrt = WStr ''world''"
  shows "\<exists>h'. rotate M n h (At a) (Angle th) axis wrt sk = (Inr (At a), h')
     \<and> rotation (h' a) = matmul (rotation_matrix M th axis sk) (rotation (h a))
     \<and> translation (h' a) = translation (h a)"
proof -
  let ?R = "matmul (rotation_matrix M th axis sk) (rotation (h a))"
  from pl have st: "cascaded (h a) \<longrightarrow> subtree_avoids n h a []" by simp
  from set_rotation_then_newcoords [OF st, of M ?R] obtain h2 where
    n2: "newcoords M n (h(a := (h a)\<lparr>rotation := ?R\<rparr>)) (At a) (FromArrays Same Same) False
          (RelStr ''local'') = (Inr (At a), h2)"
      "rotation (h2 a) = ?R" "translation (h2 a) = translation (h a)"
    by blast
  from pl have n1: "newcoords M n h (At a) (FromArrays (Arr (RotMatrix ?R)) Same) False
      (RelStr ''local'') = (Inr (At a), h(a := (h a)\<lparr>rotation := ?R\<rparr>))"
    by (simp add: newcoords_def Coordinates_newcoords_def newcoords_commit_def)
  from w have nl: "wrt \<noteq> WStr ''local''" "\<not> wrt_same wrt (At a)"
    by (auto simp: wrt_same_def)
  show ?thesis
  proof (cases axis)
    case (AxisToken s)
    with pl w nl n2 show ?thesis
      by (auto simp: rotate_def Coordinates_rotate_def rotate_matrix_def)
  next
    case (AxisArray v)
    with pl w nl n1 n2 show ?thesis
      by (auto simp: rotate_def Coordinates_rotate_def Coordinates_rotate_with_matrix_def)
  next
    case AxisNone
    with ax show ?thesis by simp
  qed
qed

lemma rotate_cascaded_parent_result:
  assumes ca: "cascaded (h a)" and st: "subtree_avoids n h a []" and ax: "axis \<noteq> AxisNone"
  shows "\<exists>h'. rotate M n h (At a) (Angle th) axis (WStr ''parent'') sk = (Inr (At a), h')
     \<and> rotation (h' a) =
         (case axis of
            AxisToken s \<Rightarrow> matmul (rotation (h a)) (rotation_matrix M th axis sk)
          | _ \<Rightarrow> matmul (rotation_matrix M th axis sk) (rotation (h a)))
     \<and> translation (h' a) = translation (h a)"
proof -
  from st have st': "cascaded (h a) \<longrightarrow> subtree_avoids n h a []" by simp
  show ?thesis
  proof (cases axis)
    case (AxisToken s)
    with newcoords_rotation_result [OF st', of M "matmul (rotation (h a)) (rotation_matrix M th axis sk)"]
      ca show ?thesis
      by (auto simp: rotate_def CascadedCoords_rotate_def rotate_matrix_def)
  next
    case (AxisArray v)
    with newcoords_rotation_result [OF st', of M "matmul (rotation_matrix M th axis sk) (rotation (h a))"]
      ca show ?thesis
      by (auto simp: rotate_def CascadedCoords_rotate_def CascadedCoords_rotate_with_matrix_def
          wrt_same_def)
  next
    case AxisNone
    with ax show ?thesis by simp
  qed
qed

lemma rotate_cascaded_world_result:
  assumes ca: "cascaded (h a)" and st: "subtree_avoids n h a []" and ch: "chain_ok n h a"
    and ax: "axis \<noteq> AxisNone"
  shows "\<exists>h1 h'. parentcoords n h a = (Inr (parentcoords_ref h a), h1)
     \<and> rotate M n h (At a) (Angle th) axis (WStr ''world'') sk = (Inr (At a), h')
     \<and> rotation (h' a) =
         matmul (matmul (mat_T (get_rotation h1 (parentcoords_ref h a)))
                   (matmul (rotation_matrix M th axis sk) (get_rotation h1 (parentcoords_ref h a))))
           (rotation (h a))
     \<and> translation (h' a) = translation (h a)"
proof -
  from parentcoords_total [OF ch] obtain h1 where
    p: "parentcoords n h a = (Inr (parentcoords_ref h a), h1)" and rf: "refreshed h h1" by blast
  note sf = refreshedD(1) [OF rf]
  let ?P = "get_rotation h1 (parentcoords_ref h a)"
  let ?R = "matmul (matmul (mat_T ?P) (matmul (rotation_matrix M th axis sk) ?P)) (rotation (h a))"
  from same_framesD [OF sf] have e: "rotation (h1 a) = rotation (h a)"
    "translation (h1 a) = translation (h a)" "cascaded (h1 a) = cascaded (h a)"
    "\<And>x. descendants (h1 x) = descendants (h x)" by simp_all
  from st have "subtree_avoids n h1 a []"
    by (rule subtree_avoids_descendants [rotated]) (simp add: e)
  then have "cascaded (h1 a) \<longrightarrow> subtree_avoids n h1 a []" by simp
  from newcoords_rotation_result [OF this, of M ?R] obtain h' where
    nw: "newcoords M n h1 (At a) (FromArrays (Arr (RotMatrix ?R)) Same) False (RelStr ''local'')
        = (Inr (At a), h')" "rotation (h' a) = ?R" "translation (h' a) = translation (h a)"
    by (auto simp: e)
  have wp: "\<not> wrt_parent h (WStr ''world'') (At a)"
    by (simp add: wrt_parent_def wrt_same_def split: option.splits)
  have rw: "CascadedCoords_rotate_with_matrix M n h a (rotation_matrix M th axis sk) (WStr ''world'')
      = (Inr (At a), h')"
    using wp nw(1) by (simp add: CascadedCoords_rotate_with_matrix_def wrt_same_def p e Let_def)
  have "rotate M n h (At a) (Angle th) axis (WStr ''world'') sk = (Inr (At a), h')"
  proof (cases axis)
    case (AxisToken s)
    with ca wp rw show ?thesis
      by (simp add: rotate_def CascadedCoords_rotate_def wrt_same_def)
  next
    case (AxisArray v)
    with ca rw show ?thesis by (simp add: rotate_def CascadedCoords_rotate_def)
  next
    case AxisNone
    with ax show ?thesis by simp
  qed
  with p nw show ?thesis by blast
qed

section \<open>Claims\<close>

text \<open>
  C1. For every pair of coordinates \<open>A\<close> and \<open>B\<close>, whatever objects they are and whatever
  the store holds, \<^verbatim>\<open>transform_coords(A, B)\<close> returns a new object \<open>C\<close> with
  \<open>C.translation = A.translation + A.rotation \<cdot> B.translation\<close> and
  \<open>C.rotation = A.rotation \<cdot> B.rotation\<close>, and leaves the store as it is. When an output
  object is supplied (it may be \<open>A\<close> or \<open>B\<close> itself), the same pose, computed from the
  values \<open>A\<close> and \<open>B\<close> had before the call, is written into that object, and that object
  is returned.
\<close>

theorem C1_transform_coords_compose:
  "transform_coords h A B OutNone =
     (Inr (Tmp (new_Coordinates
                  (vadd (get_translation h A) (matvec (get_rotation h A) (get_translation h B)))
                  (matmul (get_rotation h A) (get_rotation h B)))), h)
   \<and> (\<exists>h' r'. transform_coords h A B (OutCoords out) = (Inr r', h')
        \<and> (case out of Tmp c \<Rightarrow> (\<exists>c'. r' = Tmp c') | _ \<Rightarrow> r' = out)
        \<and> get_translation h' r' =
            vadd (get_translation h A) (matvec (get_rotation h A) (get_translation h B))
        \<and> get_rotation h' r' = matmul (get_rotation h A) (get_rotation h B))"
proof
  show "transform_coords h A B OutNone =
     (Inr (Tmp (new_Coordinates
                  (vadd (get_translation h A) (matvec (get_rotation h A) (get_translation h B)))
                  (matmul (get_rotation h A) (get_rotation h B)))), h)"
    by (simp add: transform_coords_def new_Coordinates_def)
next
  show "\<exists>h' r'. transform_coords h A B (OutCoords out) = (Inr r', h')
        \<and> (case out of Tmp c \<Rightarrow> (\<exists>c'. r' = Tmp c') | _ \<Rightarrow> r' = out)
        \<and> get_translation h' r' =
            vadd (get_translation h A) (matvec (get_rotation h A) (get_translation h B))
        \<and> get_rotation h' r' = matmul (get_rotation h A) (get_rotation h B)"
    by (cases out; cases A; cases B; simp add: transform_coords_def)
qed

text \<open>
  C2. The claim holds for \<^verbatim>\<open>translate\<close>, \<^verbatim>\<open>rotate\<close> and \<^verbatim>\<open>transform\<close>, which end in
  \<^verbatim>\<open>newcoords\<close> and so in \<^verbatim>\<open>changed()\<close>. It fails for the direct assignment: the setter of
  \<^verbatim>\<open>rotation\<close> is the one of \<^verbatim>\<open>Coordinates\<close>, which does not call \<^verbatim>\<open>changed()\<close>. On the
  \<open>CLEAN\<close> root node at address 1, assigning the rotation by 90 degrees about z stores the
  matrix, leaves the node \<open>CLEAN\<close>, and the next read of the world rotation still returns
  the identity; \<^verbatim>\<open>translate\<close> on the same node makes it \<open>DIRTY\<close>.
\<close>

theorem C2_rotation_setter_stays_clean:
  "\<not> changed_flag (clean_root 1)
   \<and> (case rotation_setter example_math clean_root (At 1) (RotMatrix rot_z90) of
        (r, h) \<Rightarrow> r = Inr (At 1) \<and> rotation (h 1) = rot_z90 \<and> \<not> changed_flag (h 1)
          \<and> fst (worldrot 2 h (At 1)) = Inr eye3)
   \<and> (case translate example_math 2 clean_root (At 1) (1, 0, 0) (WStr ''local'') of
        (r, h) \<Rightarrow> r = Inr (At 1) \<and> changed_flag (h 1))"
  by (simp add: clean_root_eq rotation_setter_def checked_rotation_def example_math_def
      orthonormal_rot_z90 worldrot_def worldcoords_def is_cascaded_def new_CascadedCoords_def
      translate_def parent_orientation_def newcoords_def CascadedCoords_newcoords_def
      Coordinates_newcoords_def newcoords_commit_def eval_nat_numeral)

text \<open>
  C4. After \<^verbatim>\<open>P.dissoc(C)\<close> the child is not \<open>CLEAN\<close>: \<^verbatim>\<open>dissoc\<close> ends in
  \<^verbatim>\<open>child.newcoords(...)\<close>, which calls \<^verbatim>\<open>changed()\<close>, and the read of the world pose at
  its beginning has left the child clean, so \<^verbatim>\<open>changed()\<close> sets \<^verbatim>\<open>_changed\<close> to \<^verbatim>\<open>True\<close>.
  In the store with the parent at 1 and its child at 2, \<^verbatim>\<open>dissoc\<close> returns and the dirty
  flag of the child is true.
\<close>

theorem C4_dissoc_dirty_counterexample:
  "fst (dissoc example_math 3 nested_store 1 2) = Inr ()
   \<and> changed_flag (snd (dissoc example_math 3 nested_store 1 2) 2)"
  using dissoc_result [OF nested_store_shape(1) nested_store_shape(3) nested_store_shape(4)
      nested_store_shape(6), of example_math]
  by auto

text \<open>
  C4, amended. Let \<open>C\<close> be a \<^verbatim>\<open>CascadedCoords\<close> registered among the descendants of \<open>P\<close>,
  in a tree whose depth is within the recursion limit \<open>n\<close>. Then \<^verbatim>\<open>P.dissoc(C)\<close> returns,
  the child has no parent, the world pose that \<^verbatim>\<open>dissoc\<close> read at its beginning is the new
  local pose of the child, and the child is \<open>DIRTY\<close> (its flag is true); the next read of
  its world rotation and position returns that same pose.
\<close>

theorem C4_dissoc_freezes_world_pose:
  assumes "cascaded (h C)" and "C \<in> set (descendants (h P))"
    and "chain_ok n h C" and "subtree_avoids n h C []"
  shows "\<exists>h1 h'. worldcoords n h (At C) = (Inr (Cache C), h1)
     \<and> dissoc M n h P C = (Inr (), h')
     \<and> parent (h' C) = None
     \<and> rotation (h' C) = world_rotation (h1 C)
     \<and> translation (h' C) = world_translation (h1 C)
     \<and> changed_flag (h' C)
     \<and> fst (worldrot n h' (At C)) = Inr (world_rotation (h1 C))
     \<and> fst (worldpos n h' (At C)) = Inr (world_translation (h1 C))"
  using assms by (rule dissoc_result)

theorem C4_dissoc_freezes_world_pose_witness:
  "cascaded (nested_store 2) \<and> 2 \<in> set (descendants (nested_store 1))
   \<and> chain_ok 3 nested_store 2 \<and> subtree_avoids 3 nested_store 2 []
   \<and> (\<exists>h1 h'. worldcoords 3 nested_store (At 2) = (Inr (Cache 2), h1)
     \<and> dissoc example_math 3 nested_store 1 2 = (Inr (), h')
     \<and> parent (h' 2) = None
     \<and> rotation (h' 2) = world_rotation (h1 2)
     \<and> translation (h' 2) = world_translation (h1 2)
     \<and> changed_flag (h' 2)
     \<and> fst (worldrot 3 h' (At 2)) = Inr (world_rotation (h1 2))
     \<and> fst (worldpos 3 h' (At 2)) = Inr (world_translation (h1 2)))"
  using C4_dissoc_freezes_world_pose [OF nested_store_shape(1) nested_store_shape(3)
      nested_store_shape(4) nested_store_shape(6), of example_math] nested_store_shape
  by (intro conjI)




text \<open>
  C7. For every pair of \<^verbatim>\<open>Transform\<close> values \<open>t12\<close> and \<open>t23\<close>, the product
  \<open>t12 * t23\<close> has rotation \<open>t23.rotation \<cdot> t12.rotation\<close> and translation
  \<open>t23.translation + t23.rotation \<cdot> t12.translation\<close>: it is the pose that
  \<^verbatim>\<open>transform_coords\<close> returns for the coordinates of \<open>t23\<close> and \<open>t12\<close>, in this order.
\<close>

theorem C7_Transform_mul_reversed:
  "tf_rotation (Transform_mul t12 t23) = matmul (tf_rotation t23) (tf_rotation t12)
   \<and> tf_translation (Transform_mul t12 t23) =
       vadd (tf_translation t23) (matvec (tf_rotation t23) (tf_translation t12))
   \<and> transform_coords h
        (Tmp (new_Coordinates (tf_translation t23) (tf_rotation t23)))
        (Tmp (new_Coordinates (tf_translation t12) (tf_rotation t12))) OutNone =
       (Inr (Tmp (new_Coordinates (tf_translation (Transform_mul t12 t23))
                                  (tf_rotation (Transform_mul t12 t23)))), h)"
  by (simp add: Transform_mul_def transform_coords_def new_Coordinates_def Let_def)




end
